theory Spec2Isabelle
  imports Main "HOL-Library.Word" "HOL-Library.Signed_Division"
begin

section \<open>LTC3335 software correction tables: data model\<close>

text \<open>
  The source file \<^verbatim>\<open>LTC3335_Correction_Tables.cpp\<close> holds 64 constant tables of 38
  signed 16-bit correction factors (one per IPEAK / VOUT configuration, selected by the
  preprocessor) and the function \<^verbatim>\<open>LTC3335_Get_Software_Correction_Factor\<close>, which
  clamps the battery voltage to the table range and interpolates linearly between two
  neighbouring entries.

  Machine integers are words. \<^verbatim>\<open>PROGMEM\<close> and \<^verbatim>\<open>pgm_read_word\<close> are the AVR idiom,
  so \<^verbatim>\<open>int\<close> and \<^verbatim>\<open>unsigned int\<close> are 16 bits wide and \<^verbatim>\<open>int32_t\<close> is \<^verbatim>\<open>long\<close>:
  an \<^verbatim>\<open>int16_t\<close> is a \<open>16 word\<close> read with \<open>sint\<close>, a \<^verbatim>\<open>uint16_t\<close> a \<open>16 word\<close>
  read with \<open>unat\<close>, and all arithmetic wraps.
\<close>

type_synonym uint8_t = "8 word"
type_synonym uint16_t = "16 word"
type_synonym int16_t = "16 word"
type_synonym int32_t = "32 word"

definition LTC3335_VBAT_MIN :: uint16_t where
  "LTC3335_VBAT_MIN = 1800"

definition LTC3335_VBAT_STEP :: uint16_t where
  "LTC3335_VBAT_STEP = 100"

definition LTC3335_VBAT_NUM :: nat where
  "LTC3335_VBAT_NUM = 38"

definition LTC3335_VBAT_MAX :: uint16_t where
  "LTC3335_VBAT_MAX = LTC3335_VBAT_MIN + LTC3335_VBAT_STEP * (of_nat LTC3335_VBAT_NUM - 1)"

text \<open>
  \<^verbatim>\<open>#define LTC3335_VBAT_TO_TABLE_INDEX(vbat) ((uint8_t)((vbat - LTC3335_VBAT_MIN) / LTC3335_VBAT_STEP))\<close>:
  the subtraction and the division are unsigned 16-bit, the cast keeps the low byte.
\<close>

definition LTC3335_VBAT_TO_TABLE_INDEX :: "uint16_t \<Rightarrow> uint8_t" where
  "LTC3335_VBAT_TO_TABLE_INDEX vbat = ucast ((vbat - LTC3335_VBAT_MIN) div LTC3335_VBAT_STEP)"

subsection \<open>The compiled-in tables\<close>

text \<open>
  Exactly one table is compiled in, chosen by \<^verbatim>\<open>LTC3335_IPEAK_CONFIGURATION\<close> and
  \<^verbatim>\<open>LTC3335_OUTPUT_VOLTAGE\<close>. The two macros are the arguments of the table here.
\<close>

datatype ipeak_configuration =
    LTC3335_IPEAK_CONFIGURATION_5MA
  | LTC3335_IPEAK_CONFIGURATION_10MA
  | LTC3335_IPEAK_CONFIGURATION_15MA
  | LTC3335_IPEAK_CONFIGURATION_25MA
  | LTC3335_IPEAK_CONFIGURATION_50MA
  | LTC3335_IPEAK_CONFIGURATION_100MA
  | LTC3335_IPEAK_CONFIGURATION_150MA
  | LTC3335_IPEAK_CONFIGURATION_250MA

datatype output_voltage =
    LTC3335_OUTPUT_VOLTAGE_1_8V
  | LTC3335_OUTPUT_VOLTAGE_2_5V
  | LTC3335_OUTPUT_VOLTAGE_2_8V
  | LTC3335_OUTPUT_VOLTAGE_3_0V
  | LTC3335_OUTPUT_VOLTAGE_3_3V
  | LTC3335_OUTPUT_VOLTAGE_3_6V
  | LTC3335_OUTPUT_VOLTAGE_4_5V
  | LTC3335_OUTPUT_VOLTAGE_5_0V

definition LTC3335_Software_Correction_Table :: "ipeak_configuration \<Rightarrow> output_voltage \<Rightarrow> int16_t list" where
  "LTC3335_Software_Correction_Table ipeak vout =
     (case ipeak of
        LTC3335_IPEAK_CONFIGURATION_5MA \<Rightarrow>
          (case vout of
            LTC3335_OUTPUT_VOLTAGE_1_8V \<Rightarrow>
              [10886, 11274, 11652, 12022, 12387, 12748, 13108, 13467, 13826, 14187,
               14549, 14915, 15282, 15653, 16027, 16403, 16781, 17162, 17545, 17929,
               18314, 18700, 19087, 19473, 19860, 20247, 20634, 21021, 21409, 21798,
               22188, 22581, 22979, 23381, 23791, 24210, 24640, 25085]
          | LTC3335_OUTPUT_VOLTAGE_2_5V \<Rightarrow>
              [9622, 9958, 10287, 10609, 10927, 11241, 11553, 11864, 12176, 12488,
               12802, 13119, 13438, 13761, 14087, 14416, 14750, 15087, 15428, 15772,
               16120, 16472, 16827, 17185, 17546, 17909, 18276, 18645, 19016, 19390,
               19766, 20145, 20527, 20911, 21298, 21690, 22085, 22485]
          | LTC3335_OUTPUT_VOLTAGE_2_8V \<Rightarrow>
              [9114, 9461, 9794, 10116, 10430, 10737, 11040, 11340, 11638, 11937,
               12237, 12540, 12845, 13153, 13465, 13781, 14102, 14427, 14756, 15089,
               15427, 15768, 16113, 16461, 16813, 17167, 17524, 17883, 18244, 18608,
               18974, 19343, 19714, 20088, 20466, 20848, 21235, 21627]
          | LTC3335_OUTPUT_VOLTAGE_3_0V \<Rightarrow>
              [8819, 9164, 9494, 9813, 10123, 10426, 10724, 11020, 11313, 11606,
               11901, 12197, 12495, 12797, 13103, 13412, 13726, 14044, 14366, 14693,
               15023, 15358, 15696, 16038, 16382, 16730, 17081, 17435, 17790, 18149,
               18509, 18872, 19238, 19607, 19979, 20355, 20736, 21122]
          | LTC3335_OUTPUT_VOLTAGE_3_3V \<Rightarrow>
              [8426, 8759, 9080, 9392, 9696, 9994, 10288, 10579, 10868, 11157,
               11446, 11736, 12029, 12324, 12622, 12923, 13228, 13537, 13850, 14167,
               14488, 14813, 15141, 15473, 15809, 16149, 16491, 16837, 17185, 17537,
               17891, 18248, 18607, 18969, 19335, 19703, 20075, 20451]
          | LTC3335_OUTPUT_VOLTAGE_3_6V \<Rightarrow>
              [8058, 8385, 8701, 9009, 9310, 9606, 9898, 10186, 10473, 10759,
               11045, 11331, 11619, 11908, 12200, 12495, 12793, 13094, 13399, 13708,
               14020, 14337, 14657, 14982, 15310, 15642, 15977, 16316, 16659, 17004,
               17353, 17705, 18059, 18416, 18776, 19138, 19503, 19869]
          | LTC3335_OUTPUT_VOLTAGE_4_5V \<Rightarrow>
              [6891, 7319, 7709, 8068, 8401, 8713, 9010, 9294, 9569, 9839,
               10106, 10372, 10639, 10908, 11181, 11457, 11738, 12024, 12315, 12610,
               12910, 13215, 13523, 13835, 14151, 14469, 14789, 15111, 15436, 15763,
               16092, 16424, 16760, 17101, 17447, 17802, 18166, 18542]
          | LTC3335_OUTPUT_VOLTAGE_5_0V \<Rightarrow>
              [6630, 6964, 7289, 7605, 7914, 8216, 8512, 8803, 9090, 9374,
               9655, 9933, 10210, 10487, 10763, 11039, 11316, 11595, 11876, 12159,
               12445, 12734, 13027, 13323, 13624, 13929, 14239, 14553, 14872, 15197,
               15526, 15861, 16200, 16544, 16894, 17247, 17606, 17968])
      | LTC3335_IPEAK_CONFIGURATION_10MA \<Rightarrow>
          (case vout of
            LTC3335_OUTPUT_VOLTAGE_1_8V \<Rightarrow>
              [4951, 5152, 5354, 5559, 5766, 5977, 6191, 6410, 6633, 6860,
               7092, 7328, 7569, 7815, 8065, 8320, 8580, 8844, 9112, 9384,
               9661, 9941, 10225, 10512, 10803, 11097, 11394, 11694, 11997, 12302,
               12610, 12921, 13234, 13550, 13869, 14191, 14516, 14844]
          | LTC3335_OUTPUT_VOLTAGE_2_5V \<Rightarrow>
              [4225, 4386, 4552, 4722, 4897, 5077, 5262, 5451, 5645, 5843,
               6046, 6253, 6464, 6679, 6898, 7121, 7348, 7578, 7812, 8050,
               8291, 8535, 8783, 9034, 9288, 9547, 9809, 10074, 10344, 10618,
               10897, 11180, 11469, 11763, 12064, 12371, 12686, 13008]
          | LTC3335_OUTPUT_VOLTAGE_2_8V \<Rightarrow>
              [3832, 4025, 4213, 4398, 4580, 4762, 4944, 5127, 5312, 5500,
               5691, 5885, 6083, 6285, 6491, 6702, 6917, 7136, 7360, 7588,
               7820, 8056, 8295, 8539, 8786, 9037, 9291, 9549, 9810, 10075,
               10344, 10617, 10895, 11177, 11466, 11761, 12063, 12373]
          | LTC3335_OUTPUT_VOLTAGE_3_0V \<Rightarrow>
              [3603, 3812, 4011, 4203, 4389, 4572, 4752, 4932, 5112, 5294,
               5478, 5666, 5857, 6052, 6252, 6456, 6664, 6878, 7095, 7318,
               7545, 7775, 8010, 8249, 8491, 8737, 8986, 9239, 9495, 9754,
               10017, 10284, 10556, 10832, 11114, 11403, 11699, 12004]
          | LTC3335_OUTPUT_VOLTAGE_3_3V \<Rightarrow>
              [3312, 3533, 3741, 3937, 4126, 4308, 4486, 4662, 4837, 5013,
               5191, 5371, 5555, 5742, 5934, 6131, 6332, 6538, 6748, 6964,
               7183, 7407, 7634, 7866, 8101, 8339, 8581, 8826, 9074, 9325,
               9580, 9839, 10103, 10372, 10646, 10928, 11219, 11519]
          | LTC3335_OUTPUT_VOLTAGE_3_6V \<Rightarrow>
              [3058, 3283, 3493, 3690, 3879, 4060, 4237, 4411, 4584, 4757,
               4932, 5109, 5288, 5471, 5658, 5850, 6046, 6246, 6450, 6659,
               6872, 7089, 7310, 7534, 7762, 7993, 8227, 8464, 8705, 8949,
               9197, 9449, 9706, 9969, 10238, 10516, 10802, 11100]
          | LTC3335_OUTPUT_VOLTAGE_4_5V \<Rightarrow>
              [2148, 2424, 2678, 2913, 3132, 3338, 3534, 3723, 3905, 4084,
               4261, 4438, 4614, 4792, 4972, 5154, 5340, 5529, 5722, 5918,
               6118, 6321, 6529, 6739, 6953, 7171, 7391, 7614, 7841, 8071,
               8304, 8540, 8781, 9026, 9276, 9532, 9796, 10068]
          | LTC3335_OUTPUT_VOLTAGE_5_0V \<Rightarrow>
              [1588, 1914, 2209, 2478, 2725, 2953, 3167, 3369, 3562, 3748,
               3930, 4109, 4287, 4465, 4644, 4825, 5008, 5195, 5385, 5578,
               5775, 5975, 6179, 6386, 6597, 6811, 7028, 7248, 7472, 7698,
               7928, 8162, 8400, 8642, 8891, 9146, 9410, 9683])
      | LTC3335_IPEAK_CONFIGURATION_15MA \<Rightarrow>
          (case vout of
            LTC3335_OUTPUT_VOLTAGE_1_8V \<Rightarrow>
              [3046, 3189, 3325, 3457, 3587, 3717, 3850, 3986, 4126, 4272,
               4425, 4583, 4749, 4921, 5100, 5286, 5478, 5675, 5878, 6086,
               6298, 6514, 6734, 6956, 7182, 7410, 7640, 7873, 8109, 8349,
               8592, 8841, 9095, 9358, 9630, 9914, 10211, 10526]
          | LTC3335_OUTPUT_VOLTAGE_2_5V \<Rightarrow>
              [2510, 2635, 2754, 2869, 2981, 3093, 3207, 3323, 3442, 3567,
               3696, 3832, 3973, 4120, 4274, 4434, 4599, 4770, 4946, 5127,
               5312, 5502, 5695, 5891, 6091, 6294, 6499, 6707, 6918, 7133,
               7352, 7575, 7804, 8039, 8283, 8536, 8802, 9082]
          | LTC3335_OUTPUT_VOLTAGE_2_8V \<Rightarrow>
              [2346, 2455, 2561, 2666, 2772, 2879, 2988, 3100, 3216, 3337,
               3462, 3592, 3728, 3869, 4015, 4167, 4323, 4484, 4651, 4821,
               4996, 5174, 5357, 5543, 5732, 5925, 6121, 6321, 6524, 6731,
               6942, 7158, 7380, 7608, 7843, 8087, 8340, 8606]
          | LTC3335_OUTPUT_VOLTAGE_3_0V \<Rightarrow>
              [2187, 2304, 2416, 2525, 2632, 2740, 2849, 2960, 3074, 3192,
               3315, 3441, 3573, 3710, 3851, 3998, 4150, 4306, 4467, 4632,
               4802, 4976, 5153, 5334, 5518, 5706, 5897, 6091, 6289, 6491,
               6698, 6909, 7126, 7349, 7579, 7819, 8068, 8330]
          | LTC3335_OUTPUT_VOLTAGE_3_3V \<Rightarrow>
              [1888, 2037, 2173, 2299, 2418, 2533, 2645, 2756, 2869, 2983,
               3101, 3222, 3348, 3479, 3615, 3756, 3902, 4053, 4208, 4369,
               4533, 4702, 4874, 5049, 5228, 5409, 5594, 5782, 5973, 6167,
               6366, 6570, 6779, 6996, 7221, 7457, 7705, 7968]
          | LTC3335_OUTPUT_VOLTAGE_3_6V \<Rightarrow>
              [1567, 1753, 1918, 2065, 2199, 2323, 2441, 2555, 2668, 2780,
               2895, 3013, 3135, 3262, 3394, 3531, 3673, 3821, 3973, 4130,
               4291, 4456, 4625, 4796, 4970, 5147, 5326, 5508, 5693, 5881,
               6072, 6269, 6472, 6684, 6905, 7139, 7388, 7655]
          | LTC3335_OUTPUT_VOLTAGE_4_5V \<Rightarrow>
              [904, 1094, 1267, 1426, 1576, 1717, 1852, 1983, 2112, 2239,
               2366, 2493, 2622, 2752, 2885, 3021, 3159, 3300, 3444, 3590,
               3740, 3892, 4046, 4204, 4363, 4526, 4692, 4860, 5032, 5208,
               5389, 5576, 5770, 5971, 6182, 6404, 6640, 6892]
          | LTC3335_OUTPUT_VOLTAGE_5_0V \<Rightarrow>
              [245, 579, 861, 1099, 1302, 1477, 1631, 1769, 1896, 2017,
               2133, 2249, 2367, 2487, 2611, 2740, 2874, 3013, 3157, 3306,
               3459, 3615, 3774, 3935, 4097, 4261, 4425, 4590, 4757, 4924,
               5095, 5270, 5451, 5641, 5844, 6062, 6301, 6565])
      | LTC3335_IPEAK_CONFIGURATION_25MA \<Rightarrow>
          (case vout of
            LTC3335_OUTPUT_VOLTAGE_1_8V \<Rightarrow>
              [2264, 2228, 2213, 2216, 2236, 2272, 2321, 2383, 2456, 2539,
               2631, 2731, 2838, 2952, 3071, 3196, 3325, 3458, 3596, 3736,
               3880, 4027, 4177, 4330, 4486, 4645, 4808, 4973, 5142, 5315,
               5491, 5672, 5858, 6049, 6245, 6447, 6656, 6871]
          | LTC3335_OUTPUT_VOLTAGE_2_5V \<Rightarrow>
              [1958, 1938, 1931, 1936, 1953, 1981, 2018, 2065, 2121, 2185,
               2257, 2336, 2421, 2512, 2609, 2711, 2818, 2930, 3046, 3166,
               3289, 3416, 3546, 3680, 3817, 3956, 4099, 4245, 4395, 4547,
               4703, 4863, 5027, 5195, 5367, 5545, 5728, 5916]
          | LTC3335_OUTPUT_VOLTAGE_2_8V \<Rightarrow>
              [1648, 1689, 1727, 1765, 1802, 1842, 1885, 1933, 1985, 2043,
               2107, 2178, 2255, 2338, 2427, 2523, 2624, 2731, 2843, 2959,
               3080, 3204, 3332, 3462, 3595, 3730, 3868, 4007, 4149, 4293,
               4440, 4590, 4744, 4903, 5068, 5240, 5421, 5614]
          | LTC3335_OUTPUT_VOLTAGE_3_0V \<Rightarrow>
              [1498, 1559, 1612, 1660, 1705, 1750, 1795, 1843, 1895, 1951,
               2013, 2080, 2154, 2234, 2320, 2413, 2511, 2615, 2724, 2837,
               2955, 3077, 3202, 3330, 3460, 3592, 3727, 3863, 4001, 4141,
               4284, 4430, 4580, 4735, 4896, 5065, 5243, 5434]
          | LTC3335_OUTPUT_VOLTAGE_3_3V \<Rightarrow>
              [1359, 1418, 1471, 1519, 1566, 1612, 1659, 1708, 1761, 1817,
               1879, 1946, 2018, 2096, 2179, 2268, 2363, 2462, 2567, 2676,
               2789, 2905, 3025, 3148, 3274, 3402, 3533, 3665, 3800, 3937,
               4077, 4220, 4366, 4517, 4674, 4837, 5008, 5190]
          | LTC3335_OUTPUT_VOLTAGE_3_6V \<Rightarrow>
              [1267, 1307, 1347, 1388, 1430, 1475, 1524, 1575, 1631, 1691,
               1755, 1823, 1897, 1974, 2057, 2144, 2236, 2331, 2432, 2536,
               2643, 2755, 2870, 2988, 3109, 3233, 3360, 3490, 3623, 3758,
               3897, 4038, 4183, 4332, 4484, 4642, 4804, 4972]
          | LTC3335_OUTPUT_VOLTAGE_4_5V \<Rightarrow>
              [644, 746, 837, 920, 998, 1071, 1142, 1211, 1280, 1350,
               1421, 1494, 1570, 1649, 1731, 1817, 1906, 1998, 2095, 2194,
               2297, 2402, 2511, 2622, 2736, 2852, 2971, 3091, 3214, 3339,
               3466, 3596, 3729, 3866, 4007, 4153, 4304, 4463]
          | LTC3335_OUTPUT_VOLTAGE_5_0V \<Rightarrow>
              [539, 591, 649, 712, 779, 850, 923, 1000, 1079, 1159,
               1242, 1326, 1411, 1498, 1586, 1675, 1766, 1858, 1952, 2047,
               2145, 2244, 2345, 2449, 2556, 2666, 2778, 2894, 3013, 3136,
               3263, 3394, 3529, 3668, 3811, 3958, 4109, 4264])
      | LTC3335_IPEAK_CONFIGURATION_50MA \<Rightarrow>
          (case vout of
            LTC3335_OUTPUT_VOLTAGE_1_8V \<Rightarrow>
              [252, 168, 104, 60, 32, 20, 22, 36, 62, 98,
               143, 196, 256, 323, 395, 472, 554, 639, 728, 820,
               915, 1012, 1113, 1216, 1322, 1430, 1541, 1656, 1774, 1895,
               2021, 2151, 2286, 2427, 2574, 2727, 2888, 3057]
          | LTC3335_OUTPUT_VOLTAGE_2_5V \<Rightarrow>
              [- 195, - 220, - 236, - 245, - 245, - 237, - 222, - 199, - 170, - 133,
               - 90, - 41, 14, 74, 139, 208, 282, 359, 440, 525,
               612, 702, 794, 889, 987, 1086, 1189, 1293, 1400, 1511,
               1624, 1742, 1863, 1990, 2123, 2262, 2409, 2565]
          | LTC3335_OUTPUT_VOLTAGE_2_8V \<Rightarrow>
              [- 391, - 375, - 362, - 348, - 334, - 317, - 297, - 273, - 245, - 211,
               - 172, - 128, - 78, - 23, 38, 103, 173, 247, 326, 407,
               493, 580, 671, 764, 858, 955, 1054, 1154, 1257, 1362,
               1470, 1582, 1698, 1820, 1948, 2084, 2231, 2389]
          | LTC3335_OUTPUT_VOLTAGE_3_0V \<Rightarrow>
              [- 510, - 474, - 445, - 421, - 398, - 376, - 352, - 327, - 298, - 265,
               - 227, - 184, - 136, - 83, - 25, 38, 107, 179, 256, 336,
               420, 506, 595, 686, 779, 874, 971, 1069, 1169, 1271,
               1376, 1485, 1599, 1718, 1844, 1979, 2126, 2285]
          | LTC3335_OUTPUT_VOLTAGE_3_3V \<Rightarrow>
              [- 672, - 618, - 574, - 537, - 505, - 475, - 446, - 416, - 384, - 350,
               - 311, - 268, - 221, - 169, - 112, - 50, 16, 87, 161, 239,
               321, 405, 491, 579, 670, 762, 855, 951, 1048, 1147,
               1250, 1356, 1467, 1583, 1708, 1841, 1986, 2146]
          | LTC3335_OUTPUT_VOLTAGE_3_6V \<Rightarrow>
              [- 824, - 762, - 710, - 665, - 625, - 587, - 551, - 515, - 478, - 438,
               - 396, - 350, - 301, - 248, - 191, - 129, - 64, 5, 77, 153,
               231, 312, 396, 482, 569, 659, 750, 844, 939, 1037,
               1138, 1243, 1353, 1468, 1591, 1722, 1865, 2020]
          | LTC3335_OUTPUT_VOLTAGE_4_5V \<Rightarrow>
              [- 1329, - 1232, - 1145, - 1066, - 993, - 926, - 863, - 802, - 744, - 687,
               - 630, - 574, - 516, - 458, - 399, - 337, - 274, - 209, - 142, - 72,
               0, 74, 151, 230, 312, 396, 483, 573, 665, 761,
               860, 963, 1070, 1181, 1298, 1422, 1551, 1689]
          | LTC3335_OUTPUT_VOLTAGE_5_0V \<Rightarrow>
              [- 1585, - 1457, - 1346, - 1248, - 1161, - 1082, - 1010, - 942, - 878, - 815,
               - 754, - 693, - 632, - 569, - 506, - 441, - 374, - 306, - 236, - 165,
               - 92, - 18, 58, 135, 213, 292, 373, 456, 542, 630,
               722, 818, 920, 1029, 1146, 1274, 1415, 1570])
      | LTC3335_IPEAK_CONFIGURATION_100MA \<Rightarrow>
          (case vout of
            LTC3335_OUTPUT_VOLTAGE_1_8V \<Rightarrow>
              [549, 287, 77, - 88, - 212, - 302, - 363, - 399, - 414, - 411,
               - 393, - 362, - 322, - 274, - 218, - 157, - 92, - 23, 50, 125,
               204, 285, 369, 455, 545, 638, 735, 834, 937, 1044,
               1153, 1266, 1380, 1496, 1612, 1727, 1839, 1948]
          | LTC3335_OUTPUT_VOLTAGE_2_5V \<Rightarrow>
              [- 470, - 604, - 705, - 778, - 827, - 855, - 864, - 858, - 839, - 809,
               - 770, - 724, - 671, - 613, - 550, - 484, - 415, - 344, - 270, - 194,
               - 116, - 35, 47, 132, 220, 311, 405, 502, 602, 706,
               813, 923, 1037, 1153, 1271, 1391, 1512, 1632]
          | LTC3335_OUTPUT_VOLTAGE_2_8V \<Rightarrow>
              [- 763, - 831, - 882, - 917, - 938, - 946, - 944, - 932, - 911, - 882,
               - 846, - 804, - 756, - 703, - 645, - 584, - 518, - 449, - 376, - 300,
               - 221, - 139, - 53, 35, 126, 219, 316, 415, 517, 621,
               727, 836, 946, 1057, 1170, 1282, 1395, 1507]
          | LTC3335_OUTPUT_VOLTAGE_3_0V \<Rightarrow>
              [- 935, - 970, - 995, - 1010, - 1016, - 1013, - 1003, - 985, - 960, - 929,
               - 893, - 851, - 803, - 752, - 695, - 634, - 570, - 501, - 429, - 353,
               - 274, - 192, - 106, - 18, 73, 167, 264, 363, 464, 567,
               672, 779, 887, 997, 1107, 1218, 1329, 1439]
          | LTC3335_OUTPUT_VOLTAGE_3_3V \<Rightarrow>
              [- 1163, - 1170, - 1171, - 1165, - 1152, - 1134, - 1111, - 1082, - 1048, - 1010,
               - 967, - 920, - 869, - 814, - 756, - 693, - 628, - 559, - 487, - 412,
               - 334, - 253, - 169, - 83, 6, 98, 192, 288, 387, 487,
               590, 695, 802, 910, 1020, 1132, 1244, 1358]
          | LTC3335_OUTPUT_VOLTAGE_3_6V \<Rightarrow>
              [- 1362, - 1359, - 1348, - 1330, - 1305, - 1274, - 1238, - 1197, - 1151, - 1102,
               - 1049, - 993, - 934, - 873, - 809, - 742, - 674, - 603, - 531, - 456,
               - 379, - 300, - 219, - 136, - 51, 36, 126, 219, 314, 412,
               512, 615, 721, 830, 943, 1058, 1176, 1297]
          | LTC3335_OUTPUT_VOLTAGE_4_5V \<Rightarrow>
              [- 1905, - 1859, - 1809, - 1753, - 1695, - 1633, - 1569, - 1503, - 1436, - 1367,
               - 1297, - 1226, - 1155, - 1083, - 1010, - 937, - 863, - 787, - 711, - 634,
               - 555, - 474, - 392, - 308, - 222, - 133, - 42, 51, 147, 245,
               346, 449, 555, 662, 771, 882, 994, 1106]
          | LTC3335_OUTPUT_VOLTAGE_5_0V \<Rightarrow>
              [- 2470, - 2317, - 2180, - 2057, - 1946, - 1845, - 1752, - 1665, - 1584, - 1507,
               - 1433, - 1361, - 1290, - 1220, - 1149, - 1077, - 1004, - 930, - 853, - 775,
               - 694, - 612, - 526, - 439, - 349, - 258, - 164, - 69, 28, 126,
               225, 326, 427, 529, 631, 734, 837, 941])
      | LTC3335_IPEAK_CONFIGURATION_150MA \<Rightarrow>
          (case vout of
            LTC3335_OUTPUT_VOLTAGE_1_8V \<Rightarrow>
              [476, 251, 58, - 106, - 244, - 357, - 449, - 520, - 573, - 611,
               - 633, - 643, - 641, - 629, - 609, - 580, - 544, - 503, - 456, - 405,
               - 351, - 293, - 232, - 169, - 104, - 37, 32, 102, 174, 247,
               322, 399, 478, 558, 641, 727, 816, 907]
          | LTC3335_OUTPUT_VOLTAGE_2_5V \<Rightarrow>
              [- 306, - 464, - 596, - 704, - 793, - 862, - 915, - 953, - 978, - 991,
               - 994, - 988, - 973, - 951, - 922, - 888, - 848, - 804, - 756, - 704,
               - 649, - 590, - 529, - 465, - 399, - 330, - 260, - 187, - 113, - 38,
               39, 116, 194, 272, 350, 427, 502, 575]
          | LTC3335_OUTPUT_VOLTAGE_2_8V \<Rightarrow>
              [- 492, - 607, - 707, - 792, - 864, - 924, - 971, - 1006, - 1031, - 1045,
               - 1051, - 1047, - 1036, - 1017, - 991, - 959, - 921, - 878, - 831, - 780,
               - 725, - 666, - 605, - 542, - 476, - 409, - 340, - 269, - 197, - 123,
               - 48, 28, 105, 185, 266, 349, 436, 525]
          | LTC3335_OUTPUT_VOLTAGE_3_0V \<Rightarrow>
              [- 625, - 720, - 803, - 875, - 935, - 985, - 1024, - 1054, - 1074, - 1085,
               - 1088, - 1083, - 1071, - 1051, - 1026, - 994, - 957, - 916, - 869, - 819,
               - 765, - 709, - 649, - 587, - 522, - 456, - 387, - 318, - 246, - 173,
               - 98, - 22, 57, 137, 221, 307, 396, 490]
          | LTC3335_OUTPUT_VOLTAGE_3_3V \<Rightarrow>
              [- 845, - 922, - 986, - 1038, - 1081, - 1113, - 1136, - 1152, - 1159, - 1159,
               - 1153, - 1140, - 1122, - 1099, - 1071, - 1038, - 1001, - 960, - 916, - 868,
               - 817, - 763, - 707, - 647, - 585, - 520, - 453, - 384, - 312, - 239,
               - 162, - 84, - 4, 78, 163, 249, 338, 428]
          | LTC3335_OUTPUT_VOLTAGE_3_6V \<Rightarrow>
              [- 1068, - 1133, - 1183, - 1219, - 1244, - 1258, - 1264, - 1263, - 1255, - 1242,
               - 1224, - 1201, - 1175, - 1146, - 1114, - 1079, - 1041, - 1001, - 957, - 912,
               - 863, - 812, - 758, - 701, - 641, - 578, - 511, - 442, - 370, - 295,
               - 217, - 137, - 55, 28, 111, 194, 275, 355]
          | LTC3335_OUTPUT_VOLTAGE_4_5V \<Rightarrow>
              [- 1501, - 1502, - 1501, - 1498, - 1492, - 1483, - 1472, - 1458, - 1440, - 1420,
               - 1397, - 1370, - 1340, - 1307, - 1271, - 1232, - 1190, - 1146, - 1098, - 1048,
               - 995, - 940, - 883, - 823, - 762, - 698, - 633, - 566, - 498, - 428,
               - 357, - 284, - 210, - 136, - 60, 18, 96, 175]
          | LTC3335_OUTPUT_VOLTAGE_5_0V \<Rightarrow>
              [- 1790, - 1791, - 1784, - 1769, - 1747, - 1720, - 1688, - 1653, - 1615, - 1574,
               - 1531, - 1487, - 1441, - 1395, - 1349, - 1301, - 1254, - 1205, - 1157, - 1107,
               - 1057, - 1007, - 955, - 901, - 846, - 790, - 731, - 670, - 605, - 538,
               - 468, - 394, - 316, - 234, - 148, - 57, 38, 138])
      | LTC3335_IPEAK_CONFIGURATION_250MA \<Rightarrow>
          (case vout of
            LTC3335_OUTPUT_VOLTAGE_1_8V \<Rightarrow>
              [1007, 754, 530, 332, 159, 10, - 117, - 224, - 311, - 381,
               - 434, - 473, - 498, - 511, - 513, - 505, - 489, - 466, - 435, - 400,
               - 360, - 316, - 269, - 219, - 168, - 115, - 61, - 6, 50, 107,
               165, 224, 285, 348, 414, 484, 559, 639]
          | LTC3335_OUTPUT_VOLTAGE_2_5V \<Rightarrow>
              [308, 39, - 184, - 366, - 514, - 632, - 724, - 793, - 844, - 880,
               - 901, - 912, - 914, - 908, - 897, - 879, - 858, - 833, - 804, - 773,
               - 739, - 702, - 662, - 619, - 574, - 525, - 473, - 419, - 361, - 300,
               - 236, - 169, - 101, - 32, 37, 105, 171, 233]
          | LTC3335_OUTPUT_VOLTAGE_2_8V \<Rightarrow>
              [90, - 128, - 314, - 473, - 607, - 717, - 807, - 879, - 933, - 974,
               - 1001, - 1017, - 1023, - 1020, - 1010, - 993, - 971, - 943, - 912, - 877,
               - 840, - 800, - 757, - 712, - 666, - 618, - 567, - 515, - 461, - 404,
               - 345, - 283, - 218, - 149, - 77, 1, 83, 171]
          | LTC3335_OUTPUT_VOLTAGE_3_0V \<Rightarrow>
              [- 64, - 247, - 408, - 548, - 668, - 769, - 853, - 922, - 975, - 1016,
               - 1044, - 1062, - 1069, - 1068, - 1059, - 1043, - 1021, - 994, - 963, - 928,
               - 889, - 848, - 805, - 760, - 714, - 665, - 615, - 564, - 511, - 456,
               - 398, - 337, - 273, - 203, - 129, - 48, 41, 139]
          | LTC3335_OUTPUT_VOLTAGE_3_3V \<Rightarrow>
              [- 301, - 443, - 570, - 681, - 778, - 860, - 930, - 987, - 1032, - 1067,
               - 1091, - 1106, - 1113, - 1112, - 1104, - 1089, - 1069, - 1044, - 1014, - 981,
               - 944, - 905, - 863, - 818, - 772, - 724, - 673, - 621, - 567, - 511,
               - 452, - 390, - 324, - 254, - 179, - 97, - 7, 91]
          | LTC3335_OUTPUT_VOLTAGE_3_6V \<Rightarrow>
              [- 518, - 637, - 742, - 831, - 907, - 971, - 1023, - 1065, - 1098, - 1122,
               - 1138, - 1146, - 1148, - 1144, - 1135, - 1121, - 1102, - 1078, - 1051, - 1021,
               - 986, - 949, - 909, - 866, - 820, - 771, - 720, - 666, - 610, - 550,
               - 488, - 423, - 354, - 283, - 208, - 130, - 48, 38]
          | LTC3335_OUTPUT_VOLTAGE_4_5V \<Rightarrow>
              [- 874, - 988, - 1082, - 1160, - 1223, - 1272, - 1309, - 1336, - 1352, - 1361,
               - 1361, - 1355, - 1343, - 1326, - 1305, - 1279, - 1251, - 1219, - 1184, - 1146,
               - 1107, - 1065, - 1021, - 976, - 928, - 879, - 827, - 774, - 718, - 660,
               - 600, - 537, - 472, - 405, - 334, - 261, - 185, - 106]
          | LTC3335_OUTPUT_VOLTAGE_5_0V \<Rightarrow>
              [- 1252, - 1277, - 1299, - 1319, - 1335, - 1349, - 1358, - 1364, - 1366, - 1365,
               - 1359, - 1350, - 1337, - 1321, - 1302, - 1279, - 1254, - 1227, - 1197, - 1165,
               - 1131, - 1095, - 1058, - 1019, - 978, - 936, - 892, - 846, - 798, - 747,
               - 693, - 636, - 574, - 507, - 434, - 354, - 265, - 167]))"

subsection \<open>Reading the table\<close>

text \<open>
  \<^verbatim>\<open>pgm_read_word(&LTC3335_Software_Correction_Table[i])\<close>. The array has
  \<^verbatim>\<open>LTC3335_VBAT_NUM\<close> entries; a read past its end is undefined behaviour in C and is
  \<open>None\<close> here.
\<close>

definition pgm_read_word :: "int16_t list \<Rightarrow> nat \<Rightarrow> int16_t option" where
  "pgm_read_word tbl i = (if i < length tbl then Some (tbl ! i) else None)"

text \<open>
  Division of two \<^verbatim>\<open>int32_t\<close> values in C truncates towards zero, as \<open>sdiv\<close> on \<open>int\<close>
  does. (The only divisor in the source is the constant 100.)
\<close>

definition int32_div :: "int32_t \<Rightarrow> int32_t \<Rightarrow> int32_t" where
  "int32_div a b = word_of_int (sint a sdiv sint b)"

text \<open>
  The expression returned by the interpolating branch, before its conversion to the
  return type:
  \<^verbatim>\<open>factor1 + ((int32_t) (factor2 - factor1) * (vbat - (LTC3335_VBAT_MIN + index * LTC3335_VBAT_STEP)) + LTC3335_VBAT_STEP/2) / (LTC3335_VBAT_STEP)\<close>.
  \<^verbatim>\<open>factor2 - factor1\<close> is computed in \<^verbatim>\<open>int\<close> (16 bits) and then sign-extended; the
  remainder \<^verbatim>\<open>vbat - (...)\<close> is an \<^verbatim>\<open>unsigned int\<close> (16 bits) and is zero-extended;
  product, sum and quotient are \<^verbatim>\<open>int32_t\<close>.
\<close>

definition LTC3335_interpolate :: "int16_t \<Rightarrow> int16_t \<Rightarrow> uint16_t \<Rightarrow> uint8_t \<Rightarrow> int32_t" where
  "LTC3335_interpolate factor1 factor2 vbat index =
     scast factor1 +
     int32_div
       ((scast (factor2 - factor1) :: int32_t)
          * ucast (vbat - (LTC3335_VBAT_MIN + ucast index * LTC3335_VBAT_STEP))
        + ucast (LTC3335_VBAT_STEP div 2))
       (ucast LTC3335_VBAT_STEP)"

text \<open>
  \<^verbatim>\<open>int16_t LTC3335_Get_Software_Correction_Factor(uint16_t vbat)\<close>, with the compiled-in
  table as first argument. In the two clamping branches the index macro is applied to the
  constants \<^verbatim>\<open>LTC3335_VBAT_MIN\<close> and \<^verbatim>\<open>LTC3335_VBAT_MAX\<close>. \<open>index + 1\<close> is computed in
  \<^verbatim>\<open>int\<close>, so it does not wrap at 256. The \<^verbatim>\<open>int32_t\<close> result is converted to
  \<^verbatim>\<open>int16_t\<close> by keeping its low 16 bits.
\<close>

definition LTC3335_Get_Software_Correction_Factor :: "int16_t list \<Rightarrow> uint16_t \<Rightarrow> int16_t option" where
  "LTC3335_Get_Software_Correction_Factor tbl vbat =
     (if vbat \<le> LTC3335_VBAT_MIN then
        pgm_read_word tbl (unat (LTC3335_VBAT_TO_TABLE_INDEX LTC3335_VBAT_MIN))
      else if vbat \<ge> LTC3335_VBAT_MAX then
        pgm_read_word tbl (unat (LTC3335_VBAT_TO_TABLE_INDEX LTC3335_VBAT_MAX))
      else
        (let index = LTC3335_VBAT_TO_TABLE_INDEX vbat in
         case pgm_read_word tbl (unat index) of
           None \<Rightarrow> None
         | Some factor1 \<Rightarrow>
             (case pgm_read_word tbl (unat index + 1) of
                None \<Rightarrow> None
              | Some factor2 \<Rightarrow>
                  Some (ucast (LTC3335_interpolate factor1 factor2 vbat index)))))"

subsection \<open>Absence of 16-bit overflow in the difference of neighbours\<close>

text \<open>
  \<^verbatim>\<open>factor2 - factor1\<close> is a 16-bit signed subtraction. The check below says that for
  every pair of neighbouring entries the difference is representable, so that the
  subtraction does not wrap. It is evaluated on each compiled-in table
  (\<open>table_differences_fit\<close> below); on a target whose \<^verbatim>\<open>int\<close> is wider than 16 bits the
  subtraction cannot wrap in the first place.
\<close>

fun differences_fit :: "int16_t list \<Rightarrow> bool" where
  "differences_fit (x # y # zs) =
     (- 32768 \<le> sint y - sint x \<and> sint y - sint x \<le> 32767 \<and> differences_fit (y # zs))"
| "differences_fit _ = True"

section \<open>Arithmetic facts\<close>

lemma sint16_range: "- 32768 \<le> sint (w::16 word) \<and> sint w \<le> 32767"
  using sint_ge [of w] sint_lt [of w] by simp

lemma sint32_wi: "- 2147483648 \<le> k \<Longrightarrow> k \<le> 2147483647 \<Longrightarrow> sint (word_of_int k :: 32 word) = k"
  by (simp add: sint_sbintrunc' signed_take_bit_int_eq_self)

lemma sint16_wi: "- 32768 \<le> k \<Longrightarrow> k \<le> 32767 \<Longrightarrow> sint (word_of_int k :: 16 word) = k"
  by (simp add: sint_sbintrunc' signed_take_bit_int_eq_self)

lemma ucast32_16_wi: "(ucast (word_of_int k :: 32 word) :: 16 word) = word_of_int k"
  by (simp add: ucast_down_wi is_down)

lemma scast_16_32: "(scast (w::16 word) :: 32 word) = word_of_int (sint w)"
  by simp

lemma ucast_16_32: "(ucast (w::16 word) :: 32 word) = word_of_int (uint w)"
  by simp

lemma unat_ucast_8_16: "unat (ucast (w::8 word) :: 16 word) = unat w"
proof -
  have "unat w < 2 ^ 8" using unsigned_less [of w, where 'a=nat] by simp
  then have "unat w < 2 ^ 16" by simp
  then show ?thesis by (simp add: unsigned_ucast_eq take_bit_nat_eq_self)
qed

lemma unat_ucast_16_8: "unat w < 256 \<Longrightarrow> unat (ucast (w::16 word) :: 8 word) = unat w"
  by (simp add: unsigned_ucast_eq take_bit_nat_eq_self)

lemma sdiv_100_pos: "0 \<le> k \<Longrightarrow> k sdiv (100::int) = k div 100"
  by (simp add: signed_divide_int_def sgn_if)

lemma sdiv_100_neg: "k \<le> 0 \<Longrightarrow> k sdiv (100::int) = - ((- k) div 100)"
  by (simp add: signed_divide_int_def sgn_if)

lemma sdiv_100_abs: "\<bar>k sdiv (100::int)\<bar> \<le> \<bar>k\<bar>"
proof (cases "0 \<le> k")
  case True
  then show ?thesis by (simp add: sdiv_100_pos) 
next
  case False
  then have "k \<le> 0" by simp
  then show ?thesis by (simp add: sdiv_100_neg) 
qed

lemma offset_up:
  fixes d r :: int
  assumes "0 \<le> d" "0 \<le> r" "r < 100"
  shows "0 \<le> (d * r + 50) sdiv 100 \<and> (d * r + 50) sdiv 100 \<le> d"
proof -
  have a: "0 \<le> d * r" using assms by simp
  have b: "d * r \<le> d * 99" using assms by (intro mult_left_mono) auto
  have "(d * r + 50) sdiv 100 = (d * r + 50) div 100" using a by (simp add: sdiv_100_pos)
  moreover have "0 \<le> (d * r + 50) div 100" using a by simp
  moreover have "(d * r + 50) div 100 \<le> d" using b assms(1) by linarith
  ultimately show ?thesis by simp
qed

lemma offset_down:
  fixes d r :: int
  assumes "d \<le> 0" "0 \<le> r" "r < 100"
  shows "d \<le> (d * r + 50) sdiv 100 \<and> (d * r + 50) sdiv 100 \<le> 0"
proof (cases "0 \<le> d * r + 50")
  case True
  have "d * r \<le> 0" using assms by (simp add: mult_nonpos_nonneg)
  then have "(d * r + 50) div 100 = 0" using True by simp
  then show ?thesis using True assms(1) by (simp add: sdiv_100_pos)
next
  case False
  then have neg: "d * r + 50 \<le> 0" by simp
  have b: "d * 99 \<le> d * r" using assms by (intro mult_left_mono_neg) auto
  have e: "(d * r + 50) sdiv 100 = - ((- (d * r + 50)) div 100)" using neg by (rule sdiv_100_neg)
  have "0 \<le> (- (d * r + 50)) div 100" using neg by simp
  moreover have "(- (d * r + 50)) div 100 \<le> - d" using b assms(1) by linarith
  ultimately show ?thesis using e by simp
qed

lemma offset_mono:
  fixes d r1 r2 :: int
  assumes "0 \<le> d" "0 \<le> r1" "r1 \<le> r2"
  shows "(d * r1 + 50) sdiv 100 \<le> (d * r2 + 50) sdiv 100"
proof -
  have a: "d * r1 \<le> d * r2" using assms by (intro mult_left_mono) auto
  have b: "0 \<le> d * r1" using assms by simp
  then have c: "0 \<le> d * r2" using a by simp
  have "(d * r1 + 50) div 100 \<le> (d * r2 + 50) div 100"
    using a by (intro zdiv_mono1) simp_all
  then show ?thesis using b c by (simp add: sdiv_100_pos)
qed

lemma tie_negative:
  fixes d :: int
  assumes "d < 0" "odd d"
  shows "(d * 50 + 50) sdiv 100 = - ((- d) div 2)"
proof -
  obtain m where m: "d = - (2 * m + 1)" "0 \<le> m"
  proof
    show "d = - (2 * ((- d) div 2) + 1)" using assms(2) by presburger
    show "0 \<le> (- d) div 2" using assms(1) by simp
  qed
  have e: "d * 50 + 50 = - (100 * m)" using m by simp
  have "(- (100 * m)) sdiv 100 = - ((- (- (100 * m))) div 100)"
    using m(2) by (intro sdiv_100_neg) simp
  then have "(d * 50 + 50) sdiv 100 = - m" unfolding e by simp
  moreover have "(- d) div 2 = m" using m by simp
  ultimately show ?thesis by simp
qed

lemma tie_positive:
  fixes d :: int
  assumes "0 < d" "odd d"
  shows "(d * 50 + 50) sdiv 100 = d div 2 + 1"
proof -
  obtain m where m: "d = 2 * m + 1" "0 \<le> m"
  proof
    show "d = 2 * (d div 2) + 1" using assms(2) by presburger
    show "0 \<le> d div 2" using assms(1) by simp
  qed
  have "d * 50 + 50 = 100 * (m + 1)" using m by simp
  then have "(d * 50 + 50) sdiv 100 = m + 1" using m(2) by (simp add: sdiv_100_pos)
  moreover have "d div 2 = m" using m by simp
  ultimately show ?thesis by simp
qed

section \<open>Index and remainder\<close>

lemma VBAT_MAX_eq: "LTC3335_VBAT_MAX = 5500"
  by (simp add: LTC3335_VBAT_MAX_def LTC3335_VBAT_MIN_def LTC3335_VBAT_STEP_def LTC3335_VBAT_NUM_def)

lemma index_MIN: "unat (LTC3335_VBAT_TO_TABLE_INDEX LTC3335_VBAT_MIN) = 0"
  by (simp add: LTC3335_VBAT_TO_TABLE_INDEX_def)

lemma index_MAX: "unat (LTC3335_VBAT_TO_TABLE_INDEX LTC3335_VBAT_MAX) = 37"
  by (simp add: LTC3335_VBAT_TO_TABLE_INDEX_def VBAT_MAX_eq LTC3335_VBAT_MIN_def LTC3335_VBAT_STEP_def)

lemma index_unat:
  assumes "LTC3335_VBAT_MIN \<le> vbat" "vbat \<le> LTC3335_VBAT_MAX"
  shows "unat (LTC3335_VBAT_TO_TABLE_INDEX vbat) = (unat vbat - 1800) div 100"
proof -
  have lo: "1800 \<le> unat vbat" using assms(1) by (simp add: LTC3335_VBAT_MIN_def word_le_nat_alt)
  have hi: "unat vbat \<le> 5500" using assms(2) by (simp add: VBAT_MAX_eq word_le_nat_alt)
  have s: "unat (vbat - 1800) = unat vbat - 1800"
    using assms(1) by (simp add: LTC3335_VBAT_MIN_def unat_sub)
  have q: "unat ((vbat - 1800) div 100) = (unat vbat - 1800) div 100"
    by (simp add: unat_div s)
  have "(unat vbat - 1800) div 100 < 256" using hi by simp
  then show ?thesis
    unfolding LTC3335_VBAT_TO_TABLE_INDEX_def LTC3335_VBAT_MIN_def LTC3335_VBAT_STEP_def
    by (simp add: unat_ucast_16_8 q) 
qed

lemma index_le_37:
  assumes "LTC3335_VBAT_MIN \<le> vbat" "vbat \<le> LTC3335_VBAT_MAX"
  shows "unat (LTC3335_VBAT_TO_TABLE_INDEX vbat) \<le> 37"
proof -
  have "unat vbat \<le> 5500" using assms(2) by (simp add: VBAT_MAX_eq word_le_nat_alt)
  then show ?thesis using index_unat [OF assms] by simp
qed

lemma index_le_36:
  assumes "LTC3335_VBAT_MIN \<le> vbat" "vbat < LTC3335_VBAT_MAX"
  shows "unat (LTC3335_VBAT_TO_TABLE_INDEX vbat) \<le> 36"
proof -
  have "unat vbat < 5500" using assms(2) by (simp add: VBAT_MAX_eq word_less_nat_alt)
  then show ?thesis using index_unat [OF assms(1)] assms(2) by simp
qed

lemma remainder_unat:
  assumes "LTC3335_VBAT_MIN \<le> vbat" "vbat \<le> LTC3335_VBAT_MAX"
  shows "unat (vbat - (LTC3335_VBAT_MIN + ucast (LTC3335_VBAT_TO_TABLE_INDEX vbat) * LTC3335_VBAT_STEP))
           = (unat vbat - 1800) mod 100"
proof -
  let ?i = "LTC3335_VBAT_TO_TABLE_INDEX vbat"
  have lo: "1800 \<le> unat vbat" using assms(1) by (simp add: LTC3335_VBAT_MIN_def word_le_nat_alt)
  have i: "unat ?i = (unat vbat - 1800) div 100" by (rule index_unat [OF assms])
  have i37: "unat ?i \<le> 37" by (rule index_le_37 [OF assms])
  have u: "unat (ucast ?i :: 16 word) = unat ?i" by (rule unat_ucast_8_16)
  have m: "unat ((ucast ?i :: 16 word) * 100) = unat ?i * 100"
    using i37 by (simp add: unat_word_ariths(2) u)
  have b: "unat (1800 + (ucast ?i :: 16 word) * 100) = 1800 + unat ?i * 100"
    using i37 by (simp add: unat_word_ariths(1) m)
  have le: "1800 + (ucast ?i :: 16 word) * 100 \<le> vbat"
    using lo by (simp add: word_le_nat_alt b i)
  have "unat (vbat - (1800 + (ucast ?i :: 16 word) * 100)) = unat vbat - (1800 + unat ?i * 100)"
    using le by (simp add: unat_sub b)
  also have "\<dots> = (unat vbat - 1800) mod 100"
    using lo by (simp add: i minus_div_mult_eq_mod [symmetric] algebra_simps)
  finally show ?thesis by (simp add: LTC3335_VBAT_MIN_def LTC3335_VBAT_STEP_def)
qed

section \<open>The interpolation expression as an integer\<close>

lemma product_sint:
  fixes r :: int and factor1 factor2 :: "16 word"
  assumes d: "sint (factor2 - factor1) = sint factor2 - sint factor1"
    and r: "uint rem = r" and r100: "r < 100"
  shows "sint ((scast (factor2 - factor1) :: 32 word) * ucast (rem :: 16 word))
           = (sint factor2 - sint factor1) * r"
proof -
  let ?d = "sint factor2 - sint factor1"
  have r0: "0 \<le> r" using r by (metis uint_ge_0)
  have drange: "- 32768 \<le> ?d \<and> ?d \<le> 32767"
    using sint16_range [of "factor2 - factor1"] d by simp
  have "\<bar>?d * r\<bar> = \<bar>?d\<bar> * r" using r0 by (simp add: abs_mult)
  also have "\<dots> \<le> 32768 * 99"
    using drange r0 r100 by (intro mult_mono) auto
  finally have n: "- 2147483648 \<le> ?d * r \<and> ?d * r \<le> 2147483647" by linarith
  have "(scast (factor2 - factor1) :: 32 word) * ucast rem = word_of_int (?d * r)"
    by (simp only: scast_16_32 ucast_16_32 d r wi_hom_syms)
  then show ?thesis using n by (simp only: sint32_wi)
qed

lemma interpolate_sint:
  fixes r :: int
  assumes d: "sint (factor2 - factor1) = sint factor2 - sint factor1"
    and r: "uint (vbat - (LTC3335_VBAT_MIN + ucast index * LTC3335_VBAT_STEP)) = r"
    and r100: "r < 100"
  shows "sint (LTC3335_interpolate factor1 factor2 vbat index)
           = sint factor1 + ((sint factor2 - sint factor1) * r + 50) sdiv 100"
proof -
  let ?d = "sint factor2 - sint factor1"
  have r0: "0 \<le> r" using r by (metis uint_ge_0)
  have drange: "- 32768 \<le> ?d \<and> ?d \<le> 32767"
    using sint16_range [of "factor2 - factor1"] d by simp
  have f1: "- 32768 \<le> sint factor1 \<and> sint factor1 \<le> 32767" by (rule sint16_range)
  have "\<bar>?d * r\<bar> = \<bar>?d\<bar> * r" using r0 by (simp add: abs_mult)
  also have "\<dots> \<le> 32768 * 99"
    using drange r0 r100 by (intro mult_mono) auto
  finally have p: "\<bar>?d * r\<bar> \<le> 3244032" by simp
  then have n: "- 2147483648 \<le> ?d * r + 50 \<and> ?d * r + 50 \<le> 2147483647" by linarith
  have num: "sint ((scast (factor2 - factor1) :: 32 word)
                * ucast (vbat - (LTC3335_VBAT_MIN + ucast index * LTC3335_VBAT_STEP))
              + ucast (LTC3335_VBAT_STEP div 2)) = ?d * r + 50"
  proof -
    have "(ucast (LTC3335_VBAT_STEP div 2) :: 32 word) = word_of_int 50"
      by (simp add: LTC3335_VBAT_STEP_def)
    then have "(scast (factor2 - factor1) :: 32 word)
                * ucast (vbat - (LTC3335_VBAT_MIN + ucast index * LTC3335_VBAT_STEP))
              + ucast (LTC3335_VBAT_STEP div 2) = word_of_int (?d * r + 50)"
      by (simp only: scast_16_32 ucast_16_32 d r wi_hom_syms)
    then show ?thesis using n by (simp only: sint32_wi)
  qed
  have den: "sint (ucast LTC3335_VBAT_STEP :: 32 word) = 100"
    by (simp add: LTC3335_VBAT_STEP_def)
  let ?q = "(?d * r + 50) sdiv 100"
  have "\<bar>?q\<bar> \<le> \<bar>?d * r + 50\<bar>" by (rule sdiv_100_abs)
  then have q: "\<bar>?q\<bar> \<le> 3244082" using p by linarith
  have "LTC3335_interpolate factor1 factor2 vbat index = word_of_int (sint factor1) + word_of_int ?q"
    unfolding LTC3335_interpolate_def int32_div_def num den by (simp only: scast_16_32)
  also have "\<dots> = word_of_int (sint factor1 + ?q)" by (simp only: wi_hom_syms)
  finally have "sint (LTC3335_interpolate factor1 factor2 vbat index)
                  = sint (word_of_int (sint factor1 + ?q) :: 32 word)" by simp
  also have "\<dots> = sint factor1 + ?q"
    using f1 q by (intro sint32_wi) linarith+
  finally show ?thesis .
qed

section \<open>Facts about the compiled-in tables\<close>

lemma differences_fit_nth:
  "differences_fit tbl \<Longrightarrow> Suc k < length tbl \<Longrightarrow>
     sint (tbl ! Suc k - tbl ! k) = sint (tbl ! Suc k) - sint (tbl ! k)"
proof (induction tbl arbitrary: k rule: differences_fit.induct)
  case (1 x y zs)
  show ?case
  proof (cases k)
    case 0
    with "1.prems" show ?thesis
      by (simp add: sint_word_diff signed_take_bit_int_eq_self)
  next
    case (Suc j)
    with "1.prems" "1.IH" [of j] show ?thesis by simp
  qed
qed simp_all

lemma table_length: "length (LTC3335_Software_Correction_Table ipeak vout) = LTC3335_VBAT_NUM"
  by (cases ipeak; cases vout; simp add: LTC3335_Software_Correction_Table_def LTC3335_VBAT_NUM_def)

lemma table_differences_fit: "differences_fit (LTC3335_Software_Correction_Table ipeak vout)"
  by (cases ipeak; cases vout; simp add: LTC3335_Software_Correction_Table_def)

lemma nondecreasing_nth:
  assumes "\<forall>k\<le>36. sint (tbl ! k) \<le> sint ((tbl :: int16_t list) ! Suc k)"
    and "a \<le> b" and "b \<le> 37"
  shows "sint (tbl ! a) \<le> sint (tbl ! b)"
  using assms(2,3)
proof (induction b rule: dec_induct)
  case base
  show ?case by simp
next
  case (step n)
  then have "sint (tbl ! a) \<le> sint (tbl ! n)" by simp
  moreover have "sint (tbl ! n) \<le> sint (tbl ! Suc n)" using assms(1) step.prems by simp
  ultimately show ?case by simp
qed

section \<open>The three branches of the function\<close>

lemma get_factor_low:
  assumes "length tbl = LTC3335_VBAT_NUM" "vbat \<le> LTC3335_VBAT_MIN"
  shows "LTC3335_Get_Software_Correction_Factor tbl vbat = Some (tbl ! 0)"
  using assms
  by (simp add: LTC3335_Get_Software_Correction_Factor_def index_MIN pgm_read_word_def LTC3335_VBAT_NUM_def)

lemma get_factor_high:
  assumes "length tbl = LTC3335_VBAT_NUM" "LTC3335_VBAT_MAX \<le> vbat"
  shows "LTC3335_Get_Software_Correction_Factor tbl vbat = Some (tbl ! 37)"
proof -
  have "\<not> vbat \<le> LTC3335_VBAT_MIN"
    using assms(2) by (simp add: VBAT_MAX_eq LTC3335_VBAT_MIN_def word_le_nat_alt)
  then show ?thesis using assms
    by (simp add: LTC3335_Get_Software_Correction_Factor_def index_MAX pgm_read_word_def LTC3335_VBAT_NUM_def)
qed

lemma get_factor_mid:
  assumes len: "length tbl = LTC3335_VBAT_NUM"
    and lo: "LTC3335_VBAT_MIN < vbat" and hi: "vbat < LTC3335_VBAT_MAX"
  shows "LTC3335_Get_Software_Correction_Factor tbl vbat =
           Some (ucast (LTC3335_interpolate
                   (tbl ! unat (LTC3335_VBAT_TO_TABLE_INDEX vbat))
                   (tbl ! Suc (unat (LTC3335_VBAT_TO_TABLE_INDEX vbat)))
                   vbat (LTC3335_VBAT_TO_TABLE_INDEX vbat)))"
proof -
  have i: "unat (LTC3335_VBAT_TO_TABLE_INDEX vbat) \<le> 36"
    using lo hi by (intro index_le_36) simp_all
  have a: "\<not> vbat \<le> LTC3335_VBAT_MIN" using lo by simp
  have b: "\<not> LTC3335_VBAT_MAX \<le> vbat" using hi by simp
  show ?thesis
    using i len
    by (simp add: LTC3335_Get_Software_Correction_Factor_def a b pgm_read_word_def
        LTC3335_VBAT_NUM_def Let_def)
qed

lemma get_factor_mid_sint:
  assumes len: "length tbl = LTC3335_VBAT_NUM" and fit: "differences_fit tbl"
    and lo: "LTC3335_VBAT_MIN < vbat" and hi: "vbat < LTC3335_VBAT_MAX"
    and i: "i = (unat vbat - 1800) div 100" and r: "r = (unat vbat - 1800) mod 100"
  shows "\<exists>w. LTC3335_Get_Software_Correction_Factor tbl vbat = Some w \<and>
           sint w = sint (LTC3335_interpolate (tbl ! i) (tbl ! Suc i) vbat (LTC3335_VBAT_TO_TABLE_INDEX vbat)) \<and>
           sint w = sint (tbl ! i) + ((sint (tbl ! Suc i) - sint (tbl ! i)) * int r + 50) sdiv 100"
proof -
  let ?ix = "LTC3335_VBAT_TO_TABLE_INDEX vbat"
  let ?lo = "sint (tbl ! i)" and ?hi = "sint (tbl ! Suc i)"
  let ?q = "((?hi - ?lo) * int r + 50) sdiv 100"
  have le1: "LTC3335_VBAT_MIN \<le> vbat" and le2: "vbat \<le> LTC3335_VBAT_MAX" using lo hi by simp_all
  have ix: "unat ?ix = i" using index_unat [OF le1 le2] i by simp
  have i36: "i \<le> 36" using index_le_36 [OF le1 hi] ix by simp
  have d: "sint (tbl ! Suc i - tbl ! i) = ?hi - ?lo"
    using fit i36 len by (intro differences_fit_nth) (simp_all add: LTC3335_VBAT_NUM_def)
  have ru: "uint (vbat - (LTC3335_VBAT_MIN + ucast ?ix * LTC3335_VBAT_STEP)) = int r"
    using remainder_unat [OF le1 le2] r by (simp add: uint_nat)
  have r100: "int r < 100" using r by simp
  have v: "sint (LTC3335_interpolate (tbl ! i) (tbl ! Suc i) vbat ?ix) = ?lo + ?q"
    by (rule interpolate_sint [OF d ru r100])
  have lob: "- 32768 \<le> ?lo \<and> ?lo \<le> 32767" and hib: "- 32768 \<le> ?hi \<and> ?hi \<le> 32767"
    by (rule sint16_range)+
  have inr: "- 32768 \<le> ?lo + ?q \<and> ?lo + ?q \<le> 32767"
  proof (cases "?lo \<le> ?hi")
    case True
    then have "0 \<le> ?q \<and> ?q \<le> ?hi - ?lo" using r100 by (intro offset_up) simp_all
    then show ?thesis using lob hib by linarith
  next
    case False
    then have "?hi - ?lo \<le> ?q \<and> ?q \<le> 0" using r100 by (intro offset_down) simp_all
    then show ?thesis using lob hib by linarith
  qed
  let ?e = "LTC3335_interpolate (tbl ! i) (tbl ! Suc i) vbat ?ix"
  have "?e = word_of_int (sint ?e)" by simp
  then have h: "(ucast ?e :: 16 word) = word_of_int (?lo + ?q)"
    unfolding v by (metis ucast32_16_wi)
  have s: "sint (ucast ?e :: 16 word) = ?lo + ?q"
    unfolding h using inr by (intro sint16_wi) simp_all
  have "LTC3335_Get_Software_Correction_Factor tbl vbat = Some (ucast ?e)"
    using get_factor_mid [OF len lo hi] ix by simp
  then show ?thesis using s v by simp
qed

lemma get_factor_mid_bounds:
  assumes len: "length tbl = LTC3335_VBAT_NUM" and fit: "differences_fit tbl"
    and lo: "LTC3335_VBAT_MIN < vbat" and hi: "vbat < LTC3335_VBAT_MAX"
    and i: "i = unat (LTC3335_VBAT_TO_TABLE_INDEX vbat)"
  shows "\<exists>w. LTC3335_Get_Software_Correction_Factor tbl vbat = Some w \<and>
           sint (LTC3335_interpolate (tbl ! i) (tbl ! Suc i) vbat (LTC3335_VBAT_TO_TABLE_INDEX vbat)) = sint w \<and>
           min (sint (tbl ! i)) (sint (tbl ! Suc i)) \<le> sint w \<and>
           sint w \<le> max (sint (tbl ! i)) (sint (tbl ! Suc i))"
proof -
  let ?r = "(unat vbat - 1800) mod 100"
  let ?lo = "sint (tbl ! i)" and ?hi = "sint (tbl ! Suc i)"
  let ?q = "((?hi - ?lo) * int ?r + 50) sdiv 100"
  have le1: "LTC3335_VBAT_MIN \<le> vbat" and le2: "vbat \<le> LTC3335_VBAT_MAX" using lo hi by simp_all
  have i': "i = (unat vbat - 1800) div 100" using index_unat [OF le1 le2] i by simp
  from get_factor_mid_sint [OF len fit lo hi i' refl]
  obtain w where w: "LTC3335_Get_Software_Correction_Factor tbl vbat = Some w"
    and e: "sint w = sint (LTC3335_interpolate (tbl ! i) (tbl ! Suc i) vbat (LTC3335_VBAT_TO_TABLE_INDEX vbat))"
    and s: "sint w = ?lo + ?q"
    by blast
  have r100: "int ?r < 100" by simp
  have "min ?lo ?hi \<le> ?lo + ?q \<and> ?lo + ?q \<le> max ?lo ?hi"
  proof (cases "?lo \<le> ?hi")
    case True
    then have "0 \<le> ?q \<and> ?q \<le> ?hi - ?lo" using r100 by (intro offset_up) simp_all
    then show ?thesis using True by linarith
  next
    case False
    then have "?hi - ?lo \<le> ?q \<and> ?q \<le> 0" using r100 by (intro offset_down) simp_all
    then show ?thesis using False by linarith
  qed
  then show ?thesis using w e s by simp
qed

lemma tie_result:
  assumes lo: "LTC3335_VBAT_MIN < vbat" and hi: "vbat < LTC3335_VBAT_MAX"
    and r: "(unat vbat - 1800) mod 100 = 50"
    and odd: "odd (sint (LTC3335_Software_Correction_Table ipeak vout ! Suc ((unat vbat - 1800) div 100))
                - sint (LTC3335_Software_Correction_Table ipeak vout ! ((unat vbat - 1800) div 100)))"
  shows "\<exists>w. LTC3335_Get_Software_Correction_Factor (LTC3335_Software_Correction_Table ipeak vout) vbat = Some w \<and>
           2 * (sint w - sint (LTC3335_Software_Correction_Table ipeak vout ! ((unat vbat - 1800) div 100)))
             = (sint (LTC3335_Software_Correction_Table ipeak vout ! Suc ((unat vbat - 1800) div 100))
                - sint (LTC3335_Software_Correction_Table ipeak vout ! ((unat vbat - 1800) div 100))) + 1 \<and>
           (sint (LTC3335_Software_Correction_Table ipeak vout ! Suc ((unat vbat - 1800) div 100))
                - sint (LTC3335_Software_Correction_Table ipeak vout ! ((unat vbat - 1800) div 100)) < 0 \<longrightarrow>
              sint w - sint (LTC3335_Software_Correction_Table ipeak vout ! ((unat vbat - 1800) div 100))
                = - (\<bar>sint (LTC3335_Software_Correction_Table ipeak vout ! Suc ((unat vbat - 1800) div 100))
                - sint (LTC3335_Software_Correction_Table ipeak vout ! ((unat vbat - 1800) div 100))\<bar> div 2)) \<and>
           (0 < sint (LTC3335_Software_Correction_Table ipeak vout ! Suc ((unat vbat - 1800) div 100))
                - sint (LTC3335_Software_Correction_Table ipeak vout ! ((unat vbat - 1800) div 100)) \<longrightarrow>
              sint w - sint (LTC3335_Software_Correction_Table ipeak vout ! ((unat vbat - 1800) div 100))
                = \<bar>sint (LTC3335_Software_Correction_Table ipeak vout ! Suc ((unat vbat - 1800) div 100))
                - sint (LTC3335_Software_Correction_Table ipeak vout ! ((unat vbat - 1800) div 100))\<bar> div 2 + 1)"
proof -
  let ?tbl = "LTC3335_Software_Correction_Table ipeak vout"
  let ?i = "(unat vbat - 1800) div 100"
  let ?lo = "sint (?tbl ! ?i)" and ?hi = "sint (?tbl ! Suc ?i)"
  have len: "length ?tbl = LTC3335_VBAT_NUM" by (rule table_length)
  have fit: "differences_fit ?tbl" by (rule table_differences_fit)
  from get_factor_mid_sint [OF len fit lo hi refl refl]
  obtain w where w: "LTC3335_Get_Software_Correction_Factor ?tbl vbat = Some w"
    and s: "sint w = ?lo + ((?hi - ?lo) * 50 + 50) sdiv 100"
    unfolding r by auto
  define d where "d = ?hi - ?lo"
  have od: "odd d" using odd by (simp add: d_def)
  have s': "sint w - ?lo = (d * 50 + 50) sdiv 100" using s by (simp add: d_def)
  have "2 * (sint w - ?lo) = d + 1 \<and>
        (d < 0 \<longrightarrow> sint w - ?lo = - (\<bar>d\<bar> div 2)) \<and>
        (0 < d \<longrightarrow> sint w - ?lo = \<bar>d\<bar> div 2 + 1)"
  proof (cases "d < 0")
    case True
    have a: "sint w - ?lo = - ((- d) div 2)"
      using tie_negative [OF True od] s' by simp
    have "2 * (- ((- d) div 2)) = d + 1"
      using od by presburger
    then show ?thesis using True a by simp
  next
    case False
    have "d \<noteq> 0" using od by auto
    then have pos: "0 < d" using False by simp
    have a: "sint w - ?lo = d div 2 + 1"
      using tie_positive [OF pos od] s' by simp
    have "2 * (d div 2 + 1) = d + 1"
      using od by presburger
    then show ?thesis using pos a by simp
  qed
  then show ?thesis using w unfolding d_def by blast
qed

section \<open>Monotone tables\<close>

lemma get_factor_range:
  assumes len: "length tbl = LTC3335_VBAT_NUM" and fit: "differences_fit tbl"
    and mono: "\<forall>k\<le>36. sint (tbl ! k) \<le> sint (tbl ! Suc k)"
  shows "\<exists>w. LTC3335_Get_Software_Correction_Factor tbl vbat = Some w \<and>
           sint (tbl ! 0) \<le> sint w \<and> sint w \<le> sint (tbl ! 37)"
proof -
  consider "vbat \<le> LTC3335_VBAT_MIN" | "LTC3335_VBAT_MAX \<le> vbat"
    | "LTC3335_VBAT_MIN < vbat" "vbat < LTC3335_VBAT_MAX"
    by fastforce
  then show ?thesis
  proof cases
    case 1
    show ?thesis using get_factor_low [OF len 1] nondecreasing_nth [OF mono, of 0 37] by simp
  next
    case 2
    show ?thesis using get_factor_high [OF len 2] nondecreasing_nth [OF mono, of 0 37] by simp
  next
    case 3
    let ?i = "unat (LTC3335_VBAT_TO_TABLE_INDEX vbat)"
    have i36: "?i \<le> 36" using 3 by (intro index_le_36) simp_all
    from get_factor_mid_bounds [OF len fit 3 refl]
    obtain w where w: "LTC3335_Get_Software_Correction_Factor tbl vbat = Some w"
      and b: "min (sint (tbl ! ?i)) (sint (tbl ! Suc ?i)) \<le> sint w"
             "sint w \<le> max (sint (tbl ! ?i)) (sint (tbl ! Suc ?i))"
      by blast
    have s: "sint (tbl ! ?i) \<le> sint (tbl ! Suc ?i)" using mono i36 by simp
    have l: "sint (tbl ! 0) \<le> sint (tbl ! ?i)"
      using i36 by (intro nondecreasing_nth [OF mono]) simp_all
    have u: "sint (tbl ! Suc ?i) \<le> sint (tbl ! 37)"
      using i36 by (intro nondecreasing_nth [OF mono]) simp_all
    show ?thesis using w b s l u by simp
  qed
qed

lemma get_factor_mono:
  assumes len: "length tbl = LTC3335_VBAT_NUM" and fit: "differences_fit tbl"
    and mono: "\<forall>k\<le>36. sint (tbl ! k) \<le> sint (tbl ! Suc k)"
    and le: "v1 \<le> v2"
  shows "\<exists>w1 w2. LTC3335_Get_Software_Correction_Factor tbl v1 = Some w1 \<and>
                 LTC3335_Get_Software_Correction_Factor tbl v2 = Some w2 \<and>
                 sint w1 \<le> sint w2"
proof -
  from get_factor_range [OF len fit mono, of v1]
  obtain w1 where w1: "LTC3335_Get_Software_Correction_Factor tbl v1 = Some w1"
    and r1: "sint (tbl ! 0) \<le> sint w1" "sint w1 \<le> sint (tbl ! 37)" by blast
  from get_factor_range [OF len fit mono, of v2]
  obtain w2 where w2: "LTC3335_Get_Software_Correction_Factor tbl v2 = Some w2"
    and r2: "sint (tbl ! 0) \<le> sint w2" "sint w2 \<le> sint (tbl ! 37)" by blast
  consider "v1 \<le> LTC3335_VBAT_MIN" | "LTC3335_VBAT_MAX \<le> v2"
    | "LTC3335_VBAT_MIN < v1" "v2 < LTC3335_VBAT_MAX"
    by fastforce
  then have "sint w1 \<le> sint w2"
  proof cases
    case 1
    then show ?thesis using get_factor_low [OF len 1] w1 r2 by simp
  next
    case 2
    then show ?thesis using get_factor_high [OF len 2] w2 r1 by simp
  next
    case 3
    have lo2: "LTC3335_VBAT_MIN < v2" and hi1: "v1 < LTC3335_VBAT_MAX"
      using 3 le by simp_all
    let ?i1 = "(unat v1 - 1800) div 100" and ?r1 = "(unat v1 - 1800) mod 100"
    let ?i2 = "(unat v2 - 1800) div 100" and ?r2 = "(unat v2 - 1800) mod 100"
    have n: "unat v1 - 1800 \<le> unat v2 - 1800"
      using le by (simp add: word_le_nat_alt diff_le_mono)
    have i12: "?i1 \<le> ?i2" using n by (rule div_le_mono)
    have i2: "?i2 \<le> 36"
      using index_le_36 [of v2] index_unat [of v2] lo2 3(2) by simp
    from get_factor_mid_sint [OF len fit 3(1) hi1 refl refl] w1
    have s1: "sint w1 = sint (tbl ! ?i1)
                + ((sint (tbl ! Suc ?i1) - sint (tbl ! ?i1)) * int ?r1 + 50) sdiv 100"
      by simp
    from get_factor_mid_sint [OF len fit lo2 3(2) refl refl] w2
    have s2: "sint w2 = sint (tbl ! ?i2)
                + ((sint (tbl ! Suc ?i2) - sint (tbl ! ?i2)) * int ?r2 + 50) sdiv 100"
      by simp
    have d1: "0 \<le> sint (tbl ! Suc ?i1) - sint (tbl ! ?i1)"
      using mono i12 i2 by simp
    have d2: "0 \<le> sint (tbl ! Suc ?i2) - sint (tbl ! ?i2)"
      using mono i2 by simp
    show ?thesis
    proof (cases "?i1 = ?i2")
      case True
      have "?r1 \<le> ?r2"
        using n True by (metis add_le_cancel_left mult_div_mod_eq)
      then have "((sint (tbl ! Suc ?i1) - sint (tbl ! ?i1)) * int ?r1 + 50) sdiv 100
               \<le> ((sint (tbl ! Suc ?i1) - sint (tbl ! ?i1)) * int ?r2 + 50) sdiv 100"
        using d1 by (intro offset_mono) simp_all
      then show ?thesis using s1 s2 True by simp
    next
      case False
      then have lt: "Suc ?i1 \<le> ?i2" using i12 by simp
      have "sint w1 \<le> sint (tbl ! Suc ?i1)"
        using s1 offset_up [OF d1, of "int ?r1"] by simp
      also have "\<dots> \<le> sint (tbl ! ?i2)"
        using lt i2 by (intro nondecreasing_nth [OF mono]) simp_all
      also have "\<dots> \<le> sint w2"
        using s2 offset_up [OF d2, of "int ?r2"] by simp
      finally show ?thesis .
    qed
  qed
  with w1 w2 show ?thesis by blast
qed

section \<open>Claims\<close>

text \<open>
  C1. For every input strictly between \<^verbatim>\<open>LTC3335_VBAT_MIN\<close> (1800) and
  \<^verbatim>\<open>LTC3335_VBAT_MAX\<close> (5500), and every compiled-in table, the function returns
  \<open>lo + ((hi - lo) * (vbat - (1800 + index * 100)) + 50) / 100\<close> with
  \<open>index = (vbat - 1800) / 100\<close> (truncating), \<open>lo = table[index]\<close>,
  \<open>hi = table[index + 1]\<close>, the division by 100 truncating towards zero (\<open>sdiv\<close>);
  the product \<open>(hi - lo) * remainder\<close>, computed in 32-bit signed arithmetic, is the
  exact integer product (no overflow).
\<close>

theorem C1_interpolation_formula:
  assumes "LTC3335_VBAT_MIN < vbat" and "vbat < LTC3335_VBAT_MAX"
  shows "let tbl = LTC3335_Software_Correction_Table ipeak vout;
             index = (unat vbat - unat LTC3335_VBAT_MIN) div unat LTC3335_VBAT_STEP;
             lo = sint (tbl ! index);
             hi = sint (tbl ! (index + 1));
             remainder = int (unat vbat) - (int (unat LTC3335_VBAT_MIN) + int index * int (unat LTC3335_VBAT_STEP))
         in unat (LTC3335_VBAT_TO_TABLE_INDEX vbat) = index \<and>
            (\<exists>w. LTC3335_Get_Software_Correction_Factor tbl vbat = Some w \<and>
                 sint w = lo + ((hi - lo) * remainder + 50) sdiv 100) \<and>
            sint ((scast (tbl ! (index + 1) - tbl ! index) :: int32_t)
                    * ucast (vbat - (LTC3335_VBAT_MIN
                                     + ucast (LTC3335_VBAT_TO_TABLE_INDEX vbat) * LTC3335_VBAT_STEP)))
              = (hi - lo) * remainder"
proof -
  let ?tbl = "LTC3335_Software_Correction_Table ipeak vout"
  let ?i = "(unat vbat - 1800) div 100"
  let ?r = "(unat vbat - 1800) mod 100"
  let ?ix = "LTC3335_VBAT_TO_TABLE_INDEX vbat"
  have le1: "LTC3335_VBAT_MIN \<le> vbat" and le2: "vbat \<le> LTC3335_VBAT_MAX"
    using assms by simp_all
  have lo: "1800 \<le> unat vbat"
    using le1 by (simp add: LTC3335_VBAT_MIN_def word_le_nat_alt)
  have ix: "unat ?ix = ?i" by (rule index_unat [OF le1 le2])
  have i36: "?i \<le> 36" using index_le_36 [OF le1 assms(2)] ix by simp
  have len: "length ?tbl = LTC3335_VBAT_NUM" by (rule table_length)
  have fit: "differences_fit ?tbl" by (rule table_differences_fit)
  have rem: "int (unat vbat) - (1800 + int ?i * 100) = int ?r"
    using lo by (simp add: minus_div_mult_eq_mod [symmetric] algebra_simps of_nat_diff)
  have d: "sint (?tbl ! Suc ?i - ?tbl ! ?i) = sint (?tbl ! Suc ?i) - sint (?tbl ! ?i)"
    using fit i36 len by (intro differences_fit_nth) (simp_all add: LTC3335_VBAT_NUM_def)
  have ru: "uint (vbat - (LTC3335_VBAT_MIN + ucast ?ix * LTC3335_VBAT_STEP)) = int ?r"
    using remainder_unat [OF le1 le2] by (simp add: uint_nat)
  have p: "sint ((scast (?tbl ! Suc ?i - ?tbl ! ?i) :: int32_t)
                   * ucast (vbat - (LTC3335_VBAT_MIN + ucast ?ix * LTC3335_VBAT_STEP)))
             = (sint (?tbl ! Suc ?i) - sint (?tbl ! ?i)) * int ?r"
    by (rule product_sint [OF d ru]) simp
  from get_factor_mid_sint [OF len fit assms refl refl]
  obtain w where w: "LTC3335_Get_Software_Correction_Factor ?tbl vbat = Some w"
    "sint w = sint (?tbl ! ?i) + ((sint (?tbl ! Suc ?i) - sint (?tbl ! ?i)) * int ?r + 50) sdiv 100"
    by blast
  show ?thesis
    unfolding Let_def
    using ix w p rem
    by (simp add: LTC3335_VBAT_MIN_def LTC3335_VBAT_STEP_def)
qed

theorem C1_interpolation_formula_witness:
  "LTC3335_VBAT_MIN < 4550 \<and> 4550 < LTC3335_VBAT_MAX \<and>
   unat (LTC3335_VBAT_TO_TABLE_INDEX 4550) = 27 \<and>
   (\<exists>w. LTC3335_Get_Software_Correction_Factor
          (LTC3335_Software_Correction_Table LTC3335_IPEAK_CONFIGURATION_10MA
             LTC3335_OUTPUT_VOLTAGE_3_3V) 4550 = Some w \<and>
        sint w = 8826 + ((9074 - 8826) * 50 + 50) sdiv 100)"
proof -
  have h1: "LTC3335_VBAT_MIN < 4550" by (simp add: LTC3335_VBAT_MIN_def)
  have h2: "(4550 :: uint16_t) < LTC3335_VBAT_MAX" by (simp add: VBAT_MAX_eq)
  from C1_interpolation_formula [OF h1 h2,
      of LTC3335_IPEAK_CONFIGURATION_10MA LTC3335_OUTPUT_VOLTAGE_3_3V]
  show ?thesis
    using h1 h2
    by (simp add: Let_def LTC3335_Software_Correction_Table_def LTC3335_VBAT_MIN_def
        LTC3335_VBAT_STEP_def)
qed

text \<open>
  C2. For every input \<open>vbat \<le> 1800\<close> the function returns the table entry at index 0
  unchanged, and for every input \<open>vbat \<ge> 5500\<close> it returns the entry at index 37
  unchanged, whatever table is compiled in: nothing is extrapolated outside the table
  range.
\<close>

theorem C2_clamping:
  "(vbat \<le> LTC3335_VBAT_MIN \<longrightarrow>
      LTC3335_Get_Software_Correction_Factor (LTC3335_Software_Correction_Table ipeak vout) vbat
        = Some (LTC3335_Software_Correction_Table ipeak vout ! 0)) \<and>
   (LTC3335_VBAT_MAX \<le> vbat \<longrightarrow>
      LTC3335_Get_Software_Correction_Factor (LTC3335_Software_Correction_Table ipeak vout) vbat
        = Some (LTC3335_Software_Correction_Table ipeak vout ! 37))"
  using get_factor_low [OF table_length] get_factor_high [OF table_length] by blast

theorem C2_clamping_witness:
  "(1700 :: uint16_t) \<le> LTC3335_VBAT_MIN \<and>
   LTC3335_Get_Software_Correction_Factor
     (LTC3335_Software_Correction_Table LTC3335_IPEAK_CONFIGURATION_10MA
        LTC3335_OUTPUT_VOLTAGE_3_3V) 1700 = Some 3312 \<and>
   LTC3335_VBAT_MAX \<le> (6000 :: uint16_t) \<and>
   LTC3335_Get_Software_Correction_Factor
     (LTC3335_Software_Correction_Table LTC3335_IPEAK_CONFIGURATION_10MA
        LTC3335_OUTPUT_VOLTAGE_3_3V) 6000 = Some 11519"
proof -
  have h1: "(1700 :: uint16_t) \<le> LTC3335_VBAT_MIN" by (simp add: LTC3335_VBAT_MIN_def)
  have h2: "LTC3335_VBAT_MAX \<le> (6000 :: uint16_t)" by (simp add: VBAT_MAX_eq)
  from C2_clamping [of 1700 LTC3335_IPEAK_CONFIGURATION_10MA LTC3335_OUTPUT_VOLTAGE_3_3V]
    C2_clamping [of 6000 LTC3335_IPEAK_CONFIGURATION_10MA LTC3335_OUTPUT_VOLTAGE_3_3V]
  show ?thesis
    using h1 h2 by (simp add: LTC3335_Software_Correction_Table_def)
qed

text \<open>
  C3. For every \<open>k\<close> with \<open>0 \<le> k \<le> 37\<close> and every compiled-in table, the function
  applied to \<open>1800 + k * 100\<close> returns \<open>table[k]\<close> exactly: at a table node the
  interpolation is the identity.
\<close>

theorem C3_table_nodes:
  assumes "k \<le> 37"
  shows "LTC3335_Get_Software_Correction_Factor (LTC3335_Software_Correction_Table ipeak vout)
           (LTC3335_VBAT_MIN + of_nat k * LTC3335_VBAT_STEP)
         = Some (LTC3335_Software_Correction_Table ipeak vout ! k)"
proof -
  let ?tbl = "LTC3335_Software_Correction_Table ipeak vout"
  let ?v = "LTC3335_VBAT_MIN + of_nat k * LTC3335_VBAT_STEP"
  have len: "length ?tbl = LTC3335_VBAT_NUM" by (rule table_length)
  have fit: "differences_fit ?tbl" by (rule table_differences_fit)
  have k100: "unat (of_nat k * 100 :: uint16_t) = k * 100"
    using assms by (simp add: unat_word_ariths(2) unat_of_nat)
  have uv: "unat ?v = 1800 + k * 100"
    using assms by (simp add: LTC3335_VBAT_MIN_def LTC3335_VBAT_STEP_def unat_word_ariths(1) k100)
  consider "k = 0" | "k = 37" | "0 < k" "k < 37" using assms by linarith
  then show ?thesis
  proof cases
    case 1
    then have "?v \<le> LTC3335_VBAT_MIN" by simp
    then show ?thesis using get_factor_low [OF len] 1 by simp
  next
    case 2
    then have "unat ?v = 5500" using uv by simp
    then have "LTC3335_VBAT_MAX \<le> ?v" unfolding word_le_nat_alt VBAT_MAX_eq by simp
    then show ?thesis using get_factor_high [OF len] 2 by simp
  next
    case 3
    have umin: "unat LTC3335_VBAT_MIN = 1800" by (simp add: LTC3335_VBAT_MIN_def)
    have lo: "LTC3335_VBAT_MIN < ?v"
      unfolding word_less_nat_alt uv umin using 3 by simp
    have hi: "?v < LTC3335_VBAT_MAX"
      unfolding word_less_nat_alt uv VBAT_MAX_eq using 3 by simp
    have i: "k = (unat ?v - 1800) div 100" and r: "0 = (unat ?v - 1800) mod 100"
      by (simp_all add: uv)
    from get_factor_mid_sint [OF len fit lo hi i r]
    obtain w where w: "LTC3335_Get_Software_Correction_Factor ?tbl ?v = Some w"
      and s: "sint w = sint (?tbl ! k)"
      by auto
    from s have "(word_of_int (sint w) :: int16_t) = word_of_int (sint (?tbl ! k))"
      by (rule arg_cong)
    then have "w = ?tbl ! k" by simp
    with w show ?thesis by simp
  qed
qed

theorem C3_table_nodes_witness:
  "(27 :: nat) \<le> 37 \<and>
   LTC3335_Get_Software_Correction_Factor
     (LTC3335_Software_Correction_Table LTC3335_IPEAK_CONFIGURATION_10MA
        LTC3335_OUTPUT_VOLTAGE_3_3V) 4500 = Some 8826"
proof -
  have h: "(27 :: nat) \<le> 37" by simp
  from C3_table_nodes [OF h, of LTC3335_IPEAK_CONFIGURATION_10MA LTC3335_OUTPUT_VOLTAGE_3_3V]
  show ?thesis
    by (simp add: LTC3335_Software_Correction_Table_def LTC3335_VBAT_MIN_def
        LTC3335_VBAT_STEP_def)
qed

text \<open>
  C4. Every input that reaches the interpolating branch (neither \<open>vbat \<le> 1800\<close> nor
  \<open>vbat \<ge> 5500\<close> holds) gets an index between 0 and \<^verbatim>\<open>LTC3335_VBAT_NUM - 2\<close> = 36, so
  both reads, at \<open>index\<close> and at \<open>index + 1\<close>, stay inside the 38-entry array.
\<close>

theorem C4_index_in_range:
  assumes "\<not> vbat \<le> LTC3335_VBAT_MIN" and "\<not> LTC3335_VBAT_MAX \<le> vbat"
  shows "0 \<le> unat (LTC3335_VBAT_TO_TABLE_INDEX vbat) \<and>
         unat (LTC3335_VBAT_TO_TABLE_INDEX vbat) \<le> LTC3335_VBAT_NUM - 2 \<and>
         unat (LTC3335_VBAT_TO_TABLE_INDEX vbat) + 1 < length (LTC3335_Software_Correction_Table ipeak vout) \<and>
         pgm_read_word (LTC3335_Software_Correction_Table ipeak vout)
             (unat (LTC3335_VBAT_TO_TABLE_INDEX vbat))
           = Some (LTC3335_Software_Correction_Table ipeak vout ! unat (LTC3335_VBAT_TO_TABLE_INDEX vbat)) \<and>
         pgm_read_word (LTC3335_Software_Correction_Table ipeak vout)
             (unat (LTC3335_VBAT_TO_TABLE_INDEX vbat) + 1)
           = Some (LTC3335_Software_Correction_Table ipeak vout ! (unat (LTC3335_VBAT_TO_TABLE_INDEX vbat) + 1))"
proof -
  have lo: "LTC3335_VBAT_MIN \<le> vbat" and hi: "vbat < LTC3335_VBAT_MAX"
    using assms by simp_all
  have "unat (LTC3335_VBAT_TO_TABLE_INDEX vbat) \<le> 36" by (rule index_le_36 [OF lo hi])
  then show ?thesis
    by (simp add: pgm_read_word_def table_length LTC3335_VBAT_NUM_def)
qed

theorem C4_index_in_range_witness:
  "\<not> (5499 :: uint16_t) \<le> LTC3335_VBAT_MIN \<and> \<not> LTC3335_VBAT_MAX \<le> (5499 :: uint16_t) \<and>
   unat (LTC3335_VBAT_TO_TABLE_INDEX 5499) = 36 \<and>
   unat (LTC3335_VBAT_TO_TABLE_INDEX 5499) \<le> LTC3335_VBAT_NUM - 2 \<and>
   pgm_read_word (LTC3335_Software_Correction_Table LTC3335_IPEAK_CONFIGURATION_10MA
        LTC3335_OUTPUT_VOLTAGE_3_3V) (unat (LTC3335_VBAT_TO_TABLE_INDEX 5499) + 1) = Some 11519"
proof -
  have h1: "\<not> (5499 :: uint16_t) \<le> LTC3335_VBAT_MIN" by (simp add: LTC3335_VBAT_MIN_def)
  have h2: "\<not> LTC3335_VBAT_MAX \<le> (5499 :: uint16_t)" by (simp add: VBAT_MAX_eq)
  have i: "unat (LTC3335_VBAT_TO_TABLE_INDEX 5499) = 36"
    by (simp add: LTC3335_VBAT_TO_TABLE_INDEX_def LTC3335_VBAT_MIN_def LTC3335_VBAT_STEP_def)
  from C4_index_in_range [OF h1 h2, of LTC3335_IPEAK_CONFIGURATION_10MA LTC3335_OUTPUT_VOLTAGE_3_3V]
  show ?thesis
    using h1 h2 by (simp add: i LTC3335_Software_Correction_Table_def)
qed

text \<open>
  C5. With the table for 10 mA peak current and 3.3 V output voltage, the function
  returns 8826 at 4500 mV, which is the table entry at index 27, and 8950 = 8826 + 124 at
  4550 mV, the half-step point between the entries 8826 and 9074.
\<close>

theorem C5_example_values:
  "LTC3335_Get_Software_Correction_Factor
     (LTC3335_Software_Correction_Table LTC3335_IPEAK_CONFIGURATION_10MA
        LTC3335_OUTPUT_VOLTAGE_3_3V) 4500 = Some 8826 \<and>
   LTC3335_Software_Correction_Table LTC3335_IPEAK_CONFIGURATION_10MA
        LTC3335_OUTPUT_VOLTAGE_3_3V ! 27 = 8826 \<and>
   LTC3335_Software_Correction_Table LTC3335_IPEAK_CONFIGURATION_10MA
        LTC3335_OUTPUT_VOLTAGE_3_3V ! 28 = 9074 \<and>
   LTC3335_Get_Software_Correction_Factor
     (LTC3335_Software_Correction_Table LTC3335_IPEAK_CONFIGURATION_10MA
        LTC3335_OUTPUT_VOLTAGE_3_3V) 4550 = Some 8950 \<and>
   (8950 :: int) = 8826 + 124"
  by (simp add: LTC3335_Get_Software_Correction_Factor_def LTC3335_Software_Correction_Table_def
       LTC3335_VBAT_MIN_def LTC3335_VBAT_MAX_def LTC3335_VBAT_STEP_def LTC3335_VBAT_NUM_def
       LTC3335_VBAT_TO_TABLE_INDEX_def pgm_read_word_def LTC3335_interpolate_def int32_div_def
       signed_divide_int_def)

text \<open>
  C6. Segments with \<open>hi - lo < 0\<close> exist in the tables of the high peak currents (the
  100 mA / 1.8 V table falls from 77 to -88 between its entries 2 and 3). At the exact
  half-step tie (remainder 50, odd \<open>hi - lo\<close>) the expression
  \<open>(numerator + 50) / 100\<close> rounds towards plus infinity whatever the sign: twice the
  offset is \<open>hi - lo + 1\<close>. For a positive \<open>hi - lo\<close> that rounds the magnitude of the
  offset up (away from zero, \<open>\<bar>hi - lo\<bar> div 2 + 1\<close>); for a negative \<open>hi - lo\<close> it
  rounds the magnitude down (towards zero, \<open>\<bar>hi - lo\<bar> div 2\<close>), so a falling segment
  is not rounded as the mirror image of a rising one.
\<close>

theorem C6_rounding_of_negative_segments:
  "sint (LTC3335_Software_Correction_Table LTC3335_IPEAK_CONFIGURATION_100MA
           LTC3335_OUTPUT_VOLTAGE_1_8V ! 3)
     - sint (LTC3335_Software_Correction_Table LTC3335_IPEAK_CONFIGURATION_100MA
           LTC3335_OUTPUT_VOLTAGE_1_8V ! 2) < 0 \<and>
   (\<forall>ipeak vout vbat.
      let tbl = LTC3335_Software_Correction_Table ipeak vout;
          index = (unat vbat - 1800) div 100;
          lo = sint (tbl ! index);
          hi = sint (tbl ! Suc index)
      in LTC3335_VBAT_MIN < vbat \<and> vbat < LTC3335_VBAT_MAX \<and>
         (unat vbat - 1800) mod 100 = 50 \<and> odd (hi - lo) \<longrightarrow>
         (\<exists>w. LTC3335_Get_Software_Correction_Factor tbl vbat = Some w \<and>
              2 * (sint w - lo) = (hi - lo) + 1 \<and>
              (hi - lo < 0 \<longrightarrow> sint w - lo = - (\<bar>hi - lo\<bar> div 2)) \<and>
              (0 < hi - lo \<longrightarrow> sint w - lo = \<bar>hi - lo\<bar> div 2 + 1)))"
proof -
  have "sint (LTC3335_Software_Correction_Table LTC3335_IPEAK_CONFIGURATION_100MA
           LTC3335_OUTPUT_VOLTAGE_1_8V ! 3)
     - sint (LTC3335_Software_Correction_Table LTC3335_IPEAK_CONFIGURATION_100MA
           LTC3335_OUTPUT_VOLTAGE_1_8V ! 2) < 0"
    by (simp add: LTC3335_Software_Correction_Table_def)
  then show ?thesis unfolding Let_def using tie_result by blast
qed

theorem C6_rounding_of_negative_segments_witness:
  "LTC3335_VBAT_MIN < 2050 \<and> (2050 :: uint16_t) < LTC3335_VBAT_MAX \<and>
   (unat (2050 :: uint16_t) - 1800) mod 100 = 50 \<and> odd (- 88 - 77 :: int) \<and>
   (\<exists>w. LTC3335_Get_Software_Correction_Factor
          (LTC3335_Software_Correction_Table LTC3335_IPEAK_CONFIGURATION_100MA
             LTC3335_OUTPUT_VOLTAGE_1_8V) 2050 = Some w \<and>
        sint w = - 5) \<and>
   LTC3335_VBAT_MIN < 4450 \<and> (4450 :: uint16_t) < LTC3335_VBAT_MAX \<and>
   (unat (4450 :: uint16_t) - 1800) mod 100 = 50 \<and> odd (8826 - 8581 :: int) \<and>
   (\<exists>w. LTC3335_Get_Software_Correction_Factor
          (LTC3335_Software_Correction_Table LTC3335_IPEAK_CONFIGURATION_10MA
             LTC3335_OUTPUT_VOLTAGE_3_3V) 4450 = Some w \<and>
        sint w = 8704)"
proof -
  have h: "LTC3335_VBAT_MIN < 2050 \<and> (2050 :: uint16_t) < LTC3335_VBAT_MAX \<and>
      LTC3335_VBAT_MIN < 4450 \<and> (4450 :: uint16_t) < LTC3335_VBAT_MAX"
    by (simp add: LTC3335_VBAT_MIN_def VBAT_MAX_eq)
  have all: "\<forall>ipeak vout vbat.
      let tbl = LTC3335_Software_Correction_Table ipeak vout;
          index = (unat vbat - 1800) div 100;
          lo = sint (tbl ! index);
          hi = sint (tbl ! Suc index)
      in LTC3335_VBAT_MIN < vbat \<and> vbat < LTC3335_VBAT_MAX \<and>
         (unat vbat - 1800) mod 100 = 50 \<and> odd (hi - lo) \<longrightarrow>
         (\<exists>w. LTC3335_Get_Software_Correction_Factor tbl vbat = Some w \<and>
              2 * (sint w - lo) = (hi - lo) + 1 \<and>
              (hi - lo < 0 \<longrightarrow> sint w - lo = - (\<bar>hi - lo\<bar> div 2)) \<and>
              (0 < hi - lo \<longrightarrow> sint w - lo = \<bar>hi - lo\<bar> div 2 + 1))"
    using C6_rounding_of_negative_segments by (rule conjunct2)
  have a: "\<exists>w. LTC3335_Get_Software_Correction_Factor
          (LTC3335_Software_Correction_Table LTC3335_IPEAK_CONFIGURATION_100MA
             LTC3335_OUTPUT_VOLTAGE_1_8V) 2050 = Some w \<and> sint w = - 5"
    using all [rule_format, of LTC3335_IPEAK_CONFIGURATION_100MA LTC3335_OUTPUT_VOLTAGE_1_8V 2050] h
    by (auto simp add: Let_def LTC3335_Software_Correction_Table_def)
  have b: "\<exists>w. LTC3335_Get_Software_Correction_Factor
          (LTC3335_Software_Correction_Table LTC3335_IPEAK_CONFIGURATION_10MA
             LTC3335_OUTPUT_VOLTAGE_3_3V) 4450 = Some w \<and> sint w = 8704"
    using all [rule_format, of LTC3335_IPEAK_CONFIGURATION_10MA LTC3335_OUTPUT_VOLTAGE_3_3V 4450] h
    by (auto simp add: Let_def LTC3335_Software_Correction_Table_def)
  show ?thesis using h a b by simp
qed

text \<open>
  C7 (as amended). The parameter of the function is a \<^verbatim>\<open>uint16_t\<close>, so its input
  domain is 0 .. 65535 and not every integer. On that domain, and for every compiled-in
  table, the function is total: it returns a value (no read leaves the table), an input
  of at most 1800 gets the entry at index 0 and an input of at least 5500 gets the entry
  at index 37.
\<close>

theorem C7_total_on_uint16:
  "unat vbat \<le> 65535 \<and>
   (\<exists>w. LTC3335_Get_Software_Correction_Factor (LTC3335_Software_Correction_Table ipeak vout) vbat = Some w \<and>
      (unat vbat \<le> 1800 \<longrightarrow> w = LTC3335_Software_Correction_Table ipeak vout ! 0) \<and>
      (5500 \<le> unat vbat \<longrightarrow> w = LTC3335_Software_Correction_Table ipeak vout ! 37))"
proof -
  let ?tbl = "LTC3335_Software_Correction_Table ipeak vout"
  have len: "length ?tbl = LTC3335_VBAT_NUM" by (rule table_length)
  have fit: "differences_fit ?tbl" by (rule table_differences_fit)
  have dom: "unat vbat \<le> 65535" using unsigned_less [of vbat, where 'a = nat] by simp
  have a: "vbat \<le> LTC3335_VBAT_MIN \<longleftrightarrow> unat vbat \<le> 1800"
    by (simp add: LTC3335_VBAT_MIN_def word_le_nat_alt)
  have b: "LTC3335_VBAT_MAX \<le> vbat \<longleftrightarrow> 5500 \<le> unat vbat"
    by (simp add: VBAT_MAX_eq word_le_nat_alt)
  consider "vbat \<le> LTC3335_VBAT_MIN" | "LTC3335_VBAT_MAX \<le> vbat"
    | "LTC3335_VBAT_MIN < vbat" "vbat < LTC3335_VBAT_MAX"
    by fastforce
  then have "\<exists>w. LTC3335_Get_Software_Correction_Factor ?tbl vbat = Some w \<and>
      (unat vbat \<le> 1800 \<longrightarrow> w = ?tbl ! 0) \<and> (5500 \<le> unat vbat \<longrightarrow> w = ?tbl ! 37)"
  proof cases
    case 1
    then show ?thesis using get_factor_low [OF len 1] a by simp
  next
    case 2
    then show ?thesis using get_factor_high [OF len 2] b by simp
  next
    case 3
    then have "\<not> vbat \<le> LTC3335_VBAT_MIN" "\<not> LTC3335_VBAT_MAX \<le> vbat"
      by simp_all
    then have "\<not> unat vbat \<le> 1800" "\<not> 5500 \<le> unat vbat"
      unfolding a b by simp_all
    then show ?thesis using get_factor_mid [OF len 3] by simp
  qed
  with dom show ?thesis by simp
qed

theorem C7_total_on_uint16_witness:
  "unat (1700 :: uint16_t) \<le> 1800 \<and>
   LTC3335_Get_Software_Correction_Factor
     (LTC3335_Software_Correction_Table LTC3335_IPEAK_CONFIGURATION_10MA
        LTC3335_OUTPUT_VOLTAGE_3_3V) 1700 = Some 3312 \<and>
   5500 \<le> unat (65535 :: uint16_t) \<and>
   LTC3335_Get_Software_Correction_Factor
     (LTC3335_Software_Correction_Table LTC3335_IPEAK_CONFIGURATION_10MA
        LTC3335_OUTPUT_VOLTAGE_3_3V) 65535 = Some 11519"
  using C7_total_on_uint16 [of 1700 LTC3335_IPEAK_CONFIGURATION_10MA LTC3335_OUTPUT_VOLTAGE_3_3V]
    C7_total_on_uint16 [of 65535 LTC3335_IPEAK_CONFIGURATION_10MA LTC3335_OUTPUT_VOLTAGE_3_3V]
  by (simp add: LTC3335_Software_Correction_Table_def)

text \<open>
  C7, counterexample. As stated, with any integer as input, the claim fails: an integer
  argument is converted
  to \<^verbatim>\<open>uint16_t\<close> at the call (\<open>word_of_int\<close>), so 70000 mV, far above the table
  range, arrives as 4464 and gets the interpolated value 8738 instead of the last entry
  11519, and -100 mV, below the range, arrives as 65436 and gets the last entry instead
  of the first.
\<close>

theorem C7_integer_input_counterexample:
  "(word_of_int 70000 :: uint16_t) = 4464 \<and>
   LTC3335_Get_Software_Correction_Factor
     (LTC3335_Software_Correction_Table LTC3335_IPEAK_CONFIGURATION_10MA
        LTC3335_OUTPUT_VOLTAGE_3_3V) (word_of_int 70000) = Some 8738 \<and>
   LTC3335_Software_Correction_Table LTC3335_IPEAK_CONFIGURATION_10MA
        LTC3335_OUTPUT_VOLTAGE_3_3V ! 37 = 11519 \<and>
   (word_of_int (- 100) :: uint16_t) = 65436 \<and>
   LTC3335_Get_Software_Correction_Factor
     (LTC3335_Software_Correction_Table LTC3335_IPEAK_CONFIGURATION_10MA
        LTC3335_OUTPUT_VOLTAGE_3_3V) (word_of_int (- 100)) = Some 11519 \<and>
   LTC3335_Software_Correction_Table LTC3335_IPEAK_CONFIGURATION_10MA
        LTC3335_OUTPUT_VOLTAGE_3_3V ! 0 = 3312"
  by (simp add: LTC3335_Get_Software_Correction_Factor_def LTC3335_Software_Correction_Table_def
       LTC3335_VBAT_MIN_def LTC3335_VBAT_MAX_def LTC3335_VBAT_STEP_def LTC3335_VBAT_NUM_def
       LTC3335_VBAT_TO_TABLE_INDEX_def pgm_read_word_def LTC3335_interpolate_def int32_div_def
       signed_divide_int_def)

text \<open>
  C9. For every input and every compiled-in table the function returns a value; a
  clamped input gets exactly the boundary entry, and an interpolated input gets a value in
  the closed interval between \<open>table[index]\<close> and \<open>table[index + 1]\<close>, whichever of
  the two is larger. The 32-bit value of the return expression is the same integer as the
  16-bit value returned, so the final addition fits in an \<^verbatim>\<open>int16_t\<close>.
\<close>

theorem C9_result_between_neighbours:
  "\<exists>w. LTC3335_Get_Software_Correction_Factor (LTC3335_Software_Correction_Table ipeak vout) vbat = Some w \<and>
     (vbat \<le> LTC3335_VBAT_MIN \<longrightarrow> w = LTC3335_Software_Correction_Table ipeak vout ! 0) \<and>
     (LTC3335_VBAT_MAX \<le> vbat \<longrightarrow> w = LTC3335_Software_Correction_Table ipeak vout ! 37) \<and>
     (LTC3335_VBAT_MIN < vbat \<and> vbat < LTC3335_VBAT_MAX \<longrightarrow>
        (let tbl = LTC3335_Software_Correction_Table ipeak vout;
             index = LTC3335_VBAT_TO_TABLE_INDEX vbat;
             factor1 = tbl ! unat index;
             factor2 = tbl ! (unat index + 1)
         in min (sint factor1) (sint factor2) \<le> sint w \<and>
            sint w \<le> max (sint factor1) (sint factor2) \<and>
            sint (LTC3335_interpolate factor1 factor2 vbat index) = sint w \<and>
            - 32768 \<le> sint (LTC3335_interpolate factor1 factor2 vbat index) \<and>
            sint (LTC3335_interpolate factor1 factor2 vbat index) \<le> 32767))"
proof -
  let ?tbl = "LTC3335_Software_Correction_Table ipeak vout"
  have len: "length ?tbl = LTC3335_VBAT_NUM" by (rule table_length)
  have fit: "differences_fit ?tbl" by (rule table_differences_fit)
  consider "vbat \<le> LTC3335_VBAT_MIN" | "LTC3335_VBAT_MAX \<le> vbat"
    | "LTC3335_VBAT_MIN < vbat" "vbat < LTC3335_VBAT_MAX"
    by fastforce
  then show ?thesis
  proof cases
    case 1
    then have "\<not> LTC3335_VBAT_MAX \<le> vbat" "\<not> LTC3335_VBAT_MIN < vbat"
      by (simp_all add: VBAT_MAX_eq LTC3335_VBAT_MIN_def word_le_nat_alt word_less_nat_alt)
    then show ?thesis using get_factor_low [OF len 1] by simp
  next
    case 2
    then have "\<not> vbat \<le> LTC3335_VBAT_MIN" "\<not> vbat < LTC3335_VBAT_MAX"
      by (simp_all add: VBAT_MAX_eq LTC3335_VBAT_MIN_def word_le_nat_alt word_less_nat_alt)
    then show ?thesis using get_factor_high [OF len 2] by simp
  next
    case 3
    then have n: "\<not> vbat \<le> LTC3335_VBAT_MIN" "\<not> LTC3335_VBAT_MAX \<le> vbat" by simp_all
    from get_factor_mid_bounds [OF len fit 3 refl]
    obtain w where w: "LTC3335_Get_Software_Correction_Factor ?tbl vbat = Some w"
      and b: "sint (LTC3335_interpolate (?tbl ! unat (LTC3335_VBAT_TO_TABLE_INDEX vbat))
                (?tbl ! Suc (unat (LTC3335_VBAT_TO_TABLE_INDEX vbat))) vbat
                (LTC3335_VBAT_TO_TABLE_INDEX vbat)) = sint w"
        "min (sint (?tbl ! unat (LTC3335_VBAT_TO_TABLE_INDEX vbat)))
             (sint (?tbl ! Suc (unat (LTC3335_VBAT_TO_TABLE_INDEX vbat)))) \<le> sint w"
        "sint w \<le> max (sint (?tbl ! unat (LTC3335_VBAT_TO_TABLE_INDEX vbat)))
             (sint (?tbl ! Suc (unat (LTC3335_VBAT_TO_TABLE_INDEX vbat))))"
      by blast
    have "- 32768 \<le> sint w \<and> sint w \<le> 32767" by (rule sint16_range)
    then show ?thesis using w b n by (simp add: Let_def)
  qed
qed

theorem C9_result_between_neighbours_witness:
  "LTC3335_VBAT_MIN < 2050 \<and> (2050 :: uint16_t) < LTC3335_VBAT_MAX \<and>
   (\<exists>w. LTC3335_Get_Software_Correction_Factor
          (LTC3335_Software_Correction_Table LTC3335_IPEAK_CONFIGURATION_100MA
             LTC3335_OUTPUT_VOLTAGE_1_8V) 2050 = Some w \<and>
        min 77 (- 88) \<le> sint w \<and> sint w \<le> max 77 (- 88))"
proof -
  have h: "LTC3335_VBAT_MIN < 2050 \<and> (2050 :: uint16_t) < LTC3335_VBAT_MAX"
    by (simp add: LTC3335_VBAT_MIN_def VBAT_MAX_eq)
  have i: "unat (LTC3335_VBAT_TO_TABLE_INDEX 2050) = 2"
    by (simp add: LTC3335_VBAT_TO_TABLE_INDEX_def LTC3335_VBAT_MIN_def LTC3335_VBAT_STEP_def)
  from C9_result_between_neighbours
    [of LTC3335_IPEAK_CONFIGURATION_100MA LTC3335_OUTPUT_VOLTAGE_1_8V 2050]
  obtain w where w: "LTC3335_Get_Software_Correction_Factor
          (LTC3335_Software_Correction_Table LTC3335_IPEAK_CONFIGURATION_100MA
             LTC3335_OUTPUT_VOLTAGE_1_8V) 2050 = Some w"
    and b: "LTC3335_VBAT_MIN < 2050 \<and> (2050 :: uint16_t) < LTC3335_VBAT_MAX \<longrightarrow>
        (let tbl = LTC3335_Software_Correction_Table LTC3335_IPEAK_CONFIGURATION_100MA
             LTC3335_OUTPUT_VOLTAGE_1_8V;
             index = LTC3335_VBAT_TO_TABLE_INDEX 2050;
             factor1 = tbl ! unat index;
             factor2 = tbl ! (unat index + 1)
         in min (sint factor1) (sint factor2) \<le> sint w \<and>
            sint w \<le> max (sint factor1) (sint factor2) \<and>
            sint (LTC3335_interpolate factor1 factor2 2050 index) = sint w \<and>
            - 32768 \<le> sint (LTC3335_interpolate factor1 factor2 2050 index) \<and>
            sint (LTC3335_interpolate factor1 factor2 2050 index) \<le> 32767)"
    by blast
  from b h have "min 77 (- 88) \<le> sint w \<and> sint w \<le> max 77 (- 88)"
    by (simp add: Let_def i LTC3335_Software_Correction_Table_def)
  with w h show ?thesis by blast
qed

text \<open>
  C10. If the compiled-in table is nondecreasing (\<open>table[k] \<le> table[k + 1]\<close> for all
  \<open>0 \<le> k \<le> 36\<close>), the function is monotone: \<open>v1 \<le> v2\<close> implies that the value
  returned for \<open>v1\<close> is at most the value returned for \<open>v2\<close> (both as signed 16-bit
  numbers). The 10 mA / 3.3 V table is nondecreasing.
\<close>

theorem C10_monotone:
  assumes "\<forall>k\<le>36. sint (LTC3335_Software_Correction_Table ipeak vout ! k)
                    \<le> sint (LTC3335_Software_Correction_Table ipeak vout ! (k + 1))"
    and "v1 \<le> v2"
  shows "\<exists>w1 w2.
           LTC3335_Get_Software_Correction_Factor (LTC3335_Software_Correction_Table ipeak vout) v1 = Some w1 \<and>
           LTC3335_Get_Software_Correction_Factor (LTC3335_Software_Correction_Table ipeak vout) v2 = Some w2 \<and>
           sint w1 \<le> sint w2"
proof -
  have "\<forall>k\<le>36. sint (LTC3335_Software_Correction_Table ipeak vout ! k)
                    \<le> sint (LTC3335_Software_Correction_Table ipeak vout ! Suc k)"
    using assms(1) by simp
  then show ?thesis
    using assms(2) by (intro get_factor_mono table_length table_differences_fit)
qed

theorem C10_monotone_witness:
  "sorted_wrt (\<lambda>a b. sint a \<le> sint b)
     (LTC3335_Software_Correction_Table LTC3335_IPEAK_CONFIGURATION_10MA
        LTC3335_OUTPUT_VOLTAGE_3_3V) \<and>
   (4549 :: uint16_t) \<le> 4550 \<and>
   (\<exists>w1 w2.
      LTC3335_Get_Software_Correction_Factor
        (LTC3335_Software_Correction_Table LTC3335_IPEAK_CONFIGURATION_10MA
           LTC3335_OUTPUT_VOLTAGE_3_3V) 4549 = Some w1 \<and>
      LTC3335_Get_Software_Correction_Factor
        (LTC3335_Software_Correction_Table LTC3335_IPEAK_CONFIGURATION_10MA
           LTC3335_OUTPUT_VOLTAGE_3_3V) 4550 = Some w2 \<and>
      sint w1 \<le> sint w2)"
proof -
  let ?tbl = "LTC3335_Software_Correction_Table LTC3335_IPEAK_CONFIGURATION_10MA
                LTC3335_OUTPUT_VOLTAGE_3_3V"
  have s: "sorted_wrt (\<lambda>a b. sint a \<le> sint b) ?tbl"
    by (simp add: LTC3335_Software_Correction_Table_def)
  have len: "length ?tbl = 38"
    using table_length [of LTC3335_IPEAK_CONFIGURATION_10MA LTC3335_OUTPUT_VOLTAGE_3_3V]
    by (simp add: LTC3335_VBAT_NUM_def)
  have m: "\<forall>k\<le>36. sint (?tbl ! k) \<le> sint (?tbl ! (k + 1))"
  proof (intro allI impI)
    fix k :: nat
    assume "k \<le> 36"
    then have "k < k + 1" "k + 1 < length ?tbl" using len by simp_all
    then show "sint (?tbl ! k) \<le> sint (?tbl ! (k + 1))"
      using s sorted_wrt_nth_less by blast
  qed
  have le: "(4549 :: uint16_t) \<le> 4550" by simp
  from C10_monotone [OF m le] s le show ?thesis by blast
qed

end
